theory Spec2Isabelle
  imports Main
begin

section \<open>Habitica To Do Overs: the session controller \<open>ToDoOversData\<close>\<close>

text \<open>
  The development embeds \<^verbatim>\<open>src/to_do_overs/app_functions/to_do_overs_data.py\<close>.
  The class \<^verbatim>\<open>ToDoOversData\<close> becomes a record, every method a function that takes the
  session object and the outside world (the two database tables and the log of HTTP
  requests issued so far) and returns the outcome of the call together with the
  updated session and world. An exception that leaves the method is the outcome
  \<open>Raise\<close>; the session and world returned with it are the ones reached at the raise.

  Conventions of the embedding:
  \<^item> The code is Python 2 (\<^verbatim>\<open>tag_text.encode('unicode_escape').encode('utf-8')\<close> only
    works there). A text that the code only stores, compares and passes on (ids, user
    names, tokens, URLs) is a \<open>string\<close>. The name of a tag, the one text whose
    characters the code inspects, is the list of its Unicode code points.
  \<^item> \<^verbatim>\<open>requests\<close> always answers: the remote system is a function from the request to
    the response. A response carries its status code and the \<^verbatim>\<open>data\<close> member of its
    JSON body, at the type the Habitica API v3 gives it for the endpoint.
  \<^item> \<^verbatim>\<open>datetime\<close> and the cipher functions are parameters (the record \<open>env\<close>); where
    they can raise, they return \<open>None\<close>.
  \<^item> The attributes of the session have the types their documentation gives them;
    \<open>task_days\<close> is an integer, so \<^verbatim>\<open>int(self.task_days)\<close> is the attribute itself.
  \<^item> \<^verbatim>\<open>print\<close> is not modelled.
\<close>

subsection \<open>Python values and outcomes\<close>

datatype py_error = DoesNotExist | OverflowError | EncryptionError | DecryptionError

datatype 'a outcome = Return 'a | Raise py_error

text \<open>
  \<^verbatim>\<open>s.encode('utf-8')\<close> changes the representation of a text, not its characters: the
  bytes go to the HTTP layer, or to the ORM, which decodes them as UTF-8 again. On the
  modelled text it is the identity.
\<close>

definition encode_utf8 :: "string \<Rightarrow> string" where
  "encode_utf8 s = s"

text \<open>
  A Python \<^verbatim>\<open>unicode\<close> object whose characters matter is the list of its code points.
  \<open>code_points\<close> reads a \<open>string\<close> as such a text.
\<close>

type_synonym unicode = "nat list"

definition code_points :: "string \<Rightarrow> unicode" where
  "code_points s = map of_char s"

text \<open>
  \<^verbatim>\<open>u.encode('unicode_escape')\<close> of Python 2, code point by code point, in the order of
  the codec's tests: a backslash is doubled; a code point from U+10000 on becomes
  \<^verbatim>\<open>\U\<close> and eight lower-case hexadecimal digits; one from U+0100 on becomes \<^verbatim>\<open>\u\<close> and
  four digits; tab, line feed and carriage return become \<^verbatim>\<open>\t\<close>, \<^verbatim>\<open>\n\<close>, \<^verbatim>\<open>\r\<close>; every
  other code point below U+0020 or from U+007F on becomes \<^verbatim>\<open>\x\<close> and two digits; the
  rest is copied. The result is a byte string of ASCII characters. (\<open>hexdigit n\<close> is the
  digit for the low four bits of \<open>n\<close>, so \<open>hexdigit (c div 16)\<close> is the codec's
  \<^verbatim>\<open>hexdigit[(ch >> 4) & 0xF]\<close>.)
\<close>

definition hexdigit :: "nat \<Rightarrow> char" where
  "hexdigit n = ''0123456789abcdef'' ! (n mod 16)"

definition escape_char :: "nat \<Rightarrow> string" where
  "escape_char c =
     (if c = 0x5C then [CHR 0x5C, CHR 0x5C]
      else if c \<ge> 0x10000
        then [CHR 0x5C, CHR ''U'',
              hexdigit (c div 0x10000000), hexdigit (c div 0x1000000),
              hexdigit (c div 0x100000), hexdigit (c div 0x10000),
              hexdigit (c div 0x1000), hexdigit (c div 0x100),
              hexdigit (c div 0x10), hexdigit c]
      else if c \<ge> 0x100
        then [CHR 0x5C, CHR ''u'',
              hexdigit (c div 0x1000), hexdigit (c div 0x100),
              hexdigit (c div 0x10), hexdigit c]
      else if c = 0x09 then [CHR 0x5C, CHR ''t'']
      else if c = 0x0A then [CHR 0x5C, CHR ''n'']
      else if c = 0x0D then [CHR 0x5C, CHR ''r'']
      else if c < 0x20 \<or> c \<ge> 0x7F
        then [CHR 0x5C, CHR ''x'', hexdigit (c div 0x10), hexdigit c]
      else [char_of c])"

definition unicode_escape :: "unicode \<Rightarrow> string" where
  "unicode_escape s = concat (map escape_char s)"

subsection \<open>The session object\<close>

record ToDoOversData =
  username :: string
  hab_user_id :: string
  api_token :: string
  logged_in :: bool
  tags :: "string list"
  task_name :: string
  task_days :: int
  task_delay :: int
  task_id :: string
  priority :: string
  notes' :: string
  return_code :: int

definition init :: ToDoOversData where
  "init = \<lparr>username = '''', hab_user_id = '''', api_token = '''', logged_in = False,
           tags = [], task_name = '''', task_days = 0, task_delay = 0, task_id = '''',
           priority = '''', notes' = '''', return_code = 0\<rparr>"

subsection \<open>HTTP\<close>

datatype http_method = GET | POST | PUT

datatype form_value = FStr string | FList "string list"

record http_request =
  req_method :: http_method
  req_url :: string
  req_headers :: "(string \<times> string) list"
  req_data :: "(string \<times> form_value) list"

text \<open>\<open>json_data\<close> is \<^verbatim>\<open>req.json()['data']\<close>.\<close>

record 'a response =
  status_code :: int
  json_data :: 'a

record login_json =
  login_id :: string
  login_apiToken :: string
  login_username :: string

record user_json =
  profile_name :: string

record task_json =
  task_json_id :: string

record tag_json =
  tag_json_id :: string
  tag_json_name :: unicode

subsection \<open>The persistence store\<close>

text \<open>
  Modelled from the spec: the tables \<^verbatim>\<open>Users\<close> and \<^verbatim>\<open>Tags\<close> of \<^verbatim>\<open>to_do_overs.models\<close>,
  a module outside the embedded source file. A table is the list of its rows in storage
  order; \<open>user_id\<close> and \<open>tag_id\<close> are unique keys (the predicates \<open>unique_user_ids\<close> and
  \<open>unique_tag_ids\<close>), and \<open>tag_owner\<close> refers to the owning user by that user's \<open>user_id\<close>.
\<close>

record Users_row =
  user_id :: string
  api_key :: string
  users_username :: string

record Tags_row =
  tag_id :: string
  tag_owner :: string
  tag_text :: string

record world =
  Users_objects :: "Users_row list"
  Tags_objects :: "Tags_row list"
  sent :: "http_request list"

definition unique_user_ids :: "Users_row list \<Rightarrow> bool" where
  "unique_user_ids tbl = distinct (map user_id tbl)"

definition unique_tag_ids :: "Tags_row list \<Rightarrow> bool" where
  "unique_tag_ids tbl = distinct (map tag_id tbl)"

text \<open>
  Modelled from the spec: \<^verbatim>\<open>Users.objects.update_or_create(user_id=..., defaults=...)\<close>,
  the store's upsert by key. The row with the key gets the new fields where it is;
  without such a row a new one is added.
\<close>

definition Users_update_or_create :: "string \<Rightarrow> string \<Rightarrow> string \<Rightarrow> Users_row list \<Rightarrow> Users_row list" where
  "Users_update_or_create uid key name tbl =
     (if uid \<in> set (map user_id tbl)
      then map (\<lambda>r. if user_id r = uid then r\<lparr>api_key := key, users_username := name\<rparr> else r) tbl
      else tbl @ [\<lparr>user_id = uid, api_key = key, users_username = name\<rparr>])"

text \<open>
  Modelled from the spec: \<^verbatim>\<open>Users.objects.get(user_id=...)\<close>, the store's lookup by key;
  \<open>None\<close> is the exception \<^verbatim>\<open>Users.DoesNotExist\<close>.
\<close>

definition Users_get :: "string \<Rightarrow> Users_row list \<Rightarrow> Users_row option" where
  "Users_get uid tbl = find (\<lambda>r. user_id r = uid) tbl"

text \<open>Modelled from the spec: \<^verbatim>\<open>Tags.objects.filter(tag_owner=user)\<close>.\<close>

definition Tags_filter_owner :: "Users_row \<Rightarrow> Tags_row list \<Rightarrow> Tags_row list" where
  "Tags_filter_owner user tbl = filter (\<lambda>t. tag_owner t = user_id user) tbl"

text \<open>
  Modelled from the spec: \<^verbatim>\<open>Tags.objects.update_or_create(tag_id=..., defaults=...)\<close>,
  the upsert by key of the tag table.
\<close>

definition Tags_update_or_create :: "string \<Rightarrow> Users_row \<Rightarrow> string \<Rightarrow> Tags_row list \<Rightarrow> Tags_row list" where
  "Tags_update_or_create tid user text tbl =
     (if tid \<in> set (map tag_id tbl)
      then map (\<lambda>r. if tag_id r = tid then r\<lparr>tag_owner := user_id user, tag_text := text\<rparr> else r) tbl
      else tbl @ [\<lparr>tag_id = tid, tag_owner = user_id user, tag_text = text\<rparr>])"

text \<open>Modelled from the spec: \<^verbatim>\<open>Tags.objects.filter(tag_id=...).delete()\<close>.\<close>

definition Tags_delete :: "string \<Rightarrow> Tags_row list \<Rightarrow> Tags_row list" where
  "Tags_delete tid tbl = filter (\<lambda>r. tag_id r \<noteq> tid) tbl"

subsection \<open>The collaborators taken as parameters\<close>

text \<open>
  \<open>now\<close> is the value of \<^verbatim>\<open>datetime.now()\<close> at the call, \<open>plus_days t n\<close> is
  \<^verbatim>\<open>t + timedelta(days=n)\<close> (\<open>None\<close>: \<^verbatim>\<open>OverflowError\<close>), \<open>isoformat\<close> is
  \<^verbatim>\<open>datetime.isoformat\<close>. \<open>encrypt_text\<close> and \<open>decrypt_text\<close> are the functions of
  \<^verbatim>\<open>cipher_functions\<close>; the second argument of \<open>decrypt_text\<close> is the cipher file path,
  \<open>None\<close> when the call leaves it out.
\<close>

record 't env =
  now :: 't
  plus_days :: "'t \<Rightarrow> int \<Rightarrow> 't option"
  isoformat :: "'t \<Rightarrow> string"
  encrypt_text :: "string \<Rightarrow> string option"
  decrypt_text :: "string \<Rightarrow> string option \<Rightarrow> string option"
  CIPHER_FILE :: string

subsection \<open>login and login\_api\_key\<close>

definition login ::
  "'t env \<Rightarrow> (http_request \<Rightarrow> login_json response) \<Rightarrow> string \<Rightarrow> ToDoOversData \<Rightarrow> world
     \<Rightarrow> bool outcome \<times> ToDoOversData \<times> world" where
  "login env remote password s w =
     (let rq = \<lparr>req_method = POST,
                req_url = ''https://habitica.com/api/v3/user/auth/local/login'',
                req_headers = [],
                req_data = [(''username'', FStr (username s)), (''password'', FStr password)]\<rparr>;
          req = remote rq;
          w1 = w\<lparr>sent := sent w @ [rq]\<rparr>;
          s1 = s\<lparr>return_code := status_code req\<rparr>
      in if status_code req = 200 then
           (let req_json = json_data req;
                s2 = s1\<lparr>hab_user_id := login_id req_json\<rparr>
            in case encrypt_text env (encode_utf8 (login_apiToken req_json)) of
                 None \<Rightarrow> (Raise EncryptionError, s2, w1)
               | Some token \<Rightarrow>
                   (let s3 = s2\<lparr>api_token := token\<rparr>;
                        s4 = s3\<lparr>username := login_username req_json\<rparr>;
                        w2 = w1\<lparr>Users_objects :=
                               Users_update_or_create (hab_user_id s4) (api_token s4) (username s4)
                                 (Users_objects w1)\<rparr>
                    in (Return True, s4\<lparr>logged_in := True\<rparr>, w2)))
         else (Return False, s1, w1))"

definition login_api_key ::
  "'t env \<Rightarrow> (http_request \<Rightarrow> user_json response) \<Rightarrow> ToDoOversData \<Rightarrow> world
     \<Rightarrow> bool outcome \<times> ToDoOversData \<times> world" where
  "login_api_key env remote s w =
     (case decrypt_text env (api_token s) None of
        None \<Rightarrow> (Raise DecryptionError, s, w)
      | Some key \<Rightarrow>
          (let headers = [(''x-api-user'', encode_utf8 (hab_user_id s)),
                          (''x-api-key'', key),
                          (''Content-Type'', ''application/json'')];
               rq = \<lparr>req_method = GET, req_url = ''https://habitica.com/api/v3/user'',
                     req_headers = headers, req_data = []\<rparr>;
               req = remote rq;
               w1 = w\<lparr>sent := sent w @ [rq]\<rparr>;
               s1 = s\<lparr>return_code := status_code req\<rparr>
           in if status_code req = 200 then
                (let req_json = json_data req;
                     s2 = s1\<lparr>username := profile_name req_json\<rparr>;
                     w2 = w1\<lparr>Users_objects :=
                            Users_update_or_create (hab_user_id s2) (api_token s2) (username s2)
                              (Users_objects w1)\<rparr>
                 in (Return True, s2\<lparr>logged_in := True\<rparr>, w2))
              else (Return False, s1, w1)))"

subsection \<open>create\_task and edit\_task\<close>

definition create_task ::
  "'t env \<Rightarrow> (http_request \<Rightarrow> task_json response) \<Rightarrow> string \<Rightarrow> ToDoOversData \<Rightarrow> world
     \<Rightarrow> bool outcome \<times> ToDoOversData \<times> world" where
  "create_task env remote cipher_file_path s w =
     (case decrypt_text env (encode_utf8 (api_token s)) (Some cipher_file_path) of
        None \<Rightarrow> (Raise DecryptionError, s, w)
      | Some key \<Rightarrow>
          (let headers = [(''x-api-user'', encode_utf8 (hab_user_id s)), (''x-api-key'', key)]
           in if task_days s > 0 then
                (case plus_days env (now env) (task_days s) of
                   None \<Rightarrow> (Raise OverflowError, s, w)
                 | Some due \<Rightarrow>
                     (let due_date = isoformat env due;
                          rq = \<lparr>req_method = POST,
                                req_url = ''https://habitica.com/api/v3/tasks/user'',
                                req_headers = headers,
                                req_data = [(''text'', FStr (task_name s)),
                                            (''type'', FStr ''todo''),
                                            (''notes'', FStr (notes' s)),
                                            (''date'', FStr due_date),
                                            (''priority'', FStr (priority s)),
                                            (''tags'', FList (tags s))]\<rparr>;
                          req = remote rq;
                          w1 = w\<lparr>sent := sent w @ [rq]\<rparr>;
                          s1 = s\<lparr>return_code := status_code req\<rparr>
                      in if status_code req = 201
                         then (Return True, s1\<lparr>task_id := task_json_id (json_data req)\<rparr>, w1)
                         else (Return False, s1, w1)))
              else
                (let rq = \<lparr>req_method = POST,
                           req_url = ''https://habitica.com/api/v3/tasks/user'',
                           req_headers = headers,
                           req_data = [(''text'', FStr (task_name s)),
                                       (''type'', FStr ''todo''),
                                       (''notes'', FStr (notes' s)),
                                       (''priority'', FStr (priority s)),
                                       (''tags'', FList (tags s))]\<rparr>;
                     req = remote rq;
                     w1 = w\<lparr>sent := sent w @ [rq]\<rparr>;
                     s1 = s\<lparr>return_code := status_code req\<rparr>
                 in if status_code req = 201
                    then (Return True, s1\<lparr>task_id := task_json_id (json_data req)\<rparr>, w1)
                    else (Return False, s1, w1))))"

definition edit_task ::
  "'t env \<Rightarrow> (http_request \<Rightarrow> task_json response) \<Rightarrow> ToDoOversData \<Rightarrow> world
     \<Rightarrow> bool outcome \<times> ToDoOversData \<times> world" where
  "edit_task env remote s w =
     (case decrypt_text env (encode_utf8 (api_token s)) None of
        None \<Rightarrow> (Raise DecryptionError, s, w)
      | Some key \<Rightarrow>
          (let headers = [(''x-api-user'', encode_utf8 (hab_user_id s)), (''x-api-key'', key)];
               url = ''https://habitica.com/api/v3/tasks/'' @ task_id s
           in if task_days s > 0 then
                (case plus_days env (now env) (task_days s) of
                   None \<Rightarrow> (Raise OverflowError, s, w)
                 | Some due \<Rightarrow>
                     (let due_date = isoformat env due;
                          rq = \<lparr>req_method = PUT, req_url = url, req_headers = headers,
                                req_data = [(''text'', FStr (task_name s)),
                                            (''notes'', FStr (notes' s)),
                                            (''date'', FStr due_date),
                                            (''priority'', FStr (priority s)),
                                            (''tags'', FList (tags s))]\<rparr>;
                          req = remote rq;
                          w1 = w\<lparr>sent := sent w @ [rq]\<rparr>;
                          s1 = s\<lparr>return_code := status_code req\<rparr>
                      in if status_code req = 200
                         then (Return True, s1\<lparr>task_id := task_json_id (json_data req)\<rparr>, w1)
                         else (Return False, s1, w1)))
              else
                (let rq = \<lparr>req_method = PUT, req_url = url, req_headers = headers,
                           req_data = [(''text'', FStr (task_name s)),
                                       (''notes'', FStr (notes' s)),
                                       (''priority'', FStr (priority s)),
                                       (''tags'', FList (tags s))]\<rparr>;
                     req = remote rq;
                     w1 = w\<lparr>sent := sent w @ [rq]\<rparr>;
                     s1 = s\<lparr>return_code := status_code req\<rparr>
                 in if status_code req = 200
                    then (Return True, s1\<lparr>task_id := task_json_id (json_data req)\<rparr>, w1)
                    else (Return False, s1, w1))))"

subsection \<open>get\_user\_tags\<close>

text \<open>
  The first loop of \<^verbatim>\<open>get_user_tags\<close>: every tag of the response is written to the
  tag table and its id is taken off \<^verbatim>\<open>current_tag_ids\<close>. The state of the loop is the
  tag table and \<^verbatim>\<open>current_tag_ids\<close>.
\<close>

fun add_update_tags ::
  "Users_row \<Rightarrow> tag_json list \<Rightarrow> Tags_row list \<times> string list \<Rightarrow> Tags_row list \<times> string list" where
  "add_update_tags user [] (tbl, current_tag_ids) = (tbl, current_tag_ids)"
| "add_update_tags user (tag_json # rest) (tbl, current_tag_ids) =
     (let tag_text = unicode_escape (tag_json_name tag_json);
          tbl' = Tags_update_or_create (encode_utf8 (tag_json_id tag_json)) user
                   (encode_utf8 tag_text) tbl;
          current_tag_ids' =
            (if tag_json_id tag_json \<in> set current_tag_ids
             then remove1 (tag_json_id tag_json) current_tag_ids
             else current_tag_ids)
      in add_update_tags user rest (tbl', current_tag_ids'))"

text \<open>The second loop: every id left in \<^verbatim>\<open>current_tag_ids\<close> is deleted.\<close>

fun delete_leftover :: "string list \<Rightarrow> Tags_row list \<Rightarrow> Tags_row list" where
  "delete_leftover [] tbl = tbl"
| "delete_leftover (leftover_tag # rest) tbl = delete_leftover rest (Tags_delete leftover_tag tbl)"

text \<open>
  The result of \<^verbatim>\<open>get_user_tags\<close> is \<^verbatim>\<open>False\<close> or the \<^verbatim>\<open>data\<close> list of the response.
  The \<^verbatim>\<open>data\<close> member is a list of tags or \<^verbatim>\<open>null\<close> (\<open>None\<close>); Python takes
  \<^verbatim>\<open>null\<close> and the empty list as false.
\<close>

datatype tags_result = PyFalse | TagData "tag_json list"

definition get_user_tags ::
  "'t env \<Rightarrow> (http_request \<Rightarrow> tag_json list option response) \<Rightarrow> string \<Rightarrow> ToDoOversData \<Rightarrow> world
     \<Rightarrow> tags_result outcome \<times> ToDoOversData \<times> world" where
  "get_user_tags env remote cipher_file_path s w =
     (case decrypt_text env (encode_utf8 (api_token s)) (Some cipher_file_path) of
        None \<Rightarrow> (Raise DecryptionError, s, w)
      | Some key \<Rightarrow>
          (let headers = [(''x-api-user'', encode_utf8 (hab_user_id s)), (''x-api-key'', key)];
               rq = \<lparr>req_method = GET, req_url = ''https://habitica.com/api/v3/tags'',
                     req_headers = headers, req_data = []\<rparr>;
               req = remote rq;
               w1 = w\<lparr>sent := sent w @ [rq]\<rparr>;
               s1 = s\<lparr>return_code := status_code req\<rparr>
           in if status_code req = 200 then
                (case Users_get (hab_user_id s1) (Users_objects w1) of
                   None \<Rightarrow> (Raise DoesNotExist, s1, w1)
                 | Some user \<Rightarrow>
                     (let current_tags = Tags_filter_owner user (Tags_objects w1);
                          current_tag_ids = map tag_id current_tags
                      in case json_data req of
                           None \<Rightarrow> (Return PyFalse, s1, w1)
                         | Some [] \<Rightarrow> (Return PyFalse, s1, w1)
                         | Some (tag_json # rest) \<Rightarrow>
                             (let (tbl, leftover) =
                                    add_update_tags user (tag_json # rest)
                                      (Tags_objects w1, current_tag_ids);
                                  tbl' = delete_leftover leftover tbl
                              in (Return (TagData (tag_json # rest)), s1,
                                  w1\<lparr>Tags_objects := tbl'\<rparr>))))
              else (Return PyFalse, s1, w1)))"

section \<open>Example inputs\<close>

text \<open>
  Concrete collaborators, sessions, stores and remote systems, at which the theorems
  below are instantiated. In \<open>example_env\<close> a point in time is a day of November 2026
  counted from 0, at 09:30; \<open>plus_days\<close> overflows outside the month. The cipher
  reverses the text.
\<close>

definition example_env :: "int env" where
  "example_env =
     \<lparr>now = 3,
      plus_days = (\<lambda>t n. if 0 \<le> t + n \<and> t + n < 30 then Some (t + n) else None),
      isoformat = (\<lambda>t. ''2026-11-'' @ [''0123456789'' ! nat ((t + 1) div 10),
                                       ''0123456789'' ! nat ((t + 1) mod 10)] @ ''T09:30:00''),
      encrypt_text = (\<lambda>plain. Some (rev plain)),
      decrypt_text = (\<lambda>cipher path. Some (rev cipher)),
      CIPHER_FILE = ''cipher.bin''\<rparr>"

definition empty_world :: world where
  "empty_world = \<lparr>Users_objects = [], Tags_objects = [], sent = []\<rparr>"

definition ann :: ToDoOversData where
  "ann = init\<lparr>username := ''ann'', hab_user_id := ''u1'', api_token := ''nekot''\<rparr>"

definition rejecting_login :: "http_request \<Rightarrow> login_json response" where
  "rejecting_login rq = \<lparr>status_code = 401,
     json_data = \<lparr>login_id = '''', login_apiToken = '''', login_username = ''''\<rparr>\<rparr>"

definition rejecting_user :: "http_request \<Rightarrow> user_json response" where
  "rejecting_user rq = \<lparr>status_code = 401, json_data = \<lparr>profile_name = ''''\<rparr>\<rparr>"

definition login_request_ann :: http_request where
  "login_request_ann =
     \<lparr>req_method = POST, req_url = ''https://habitica.com/api/v3/user/auth/local/login'',
      req_headers = [],
      req_data = [(''username'', FStr ''ann''), (''password'', FStr ''secret'')]\<rparr>"

definition user_request_ann :: http_request where
  "user_request_ann =
     \<lparr>req_method = GET, req_url = ''https://habitica.com/api/v3/user'',
      req_headers = [(''x-api-user'', ''u1''), (''x-api-key'', ''token''),
                     (''Content-Type'', ''application/json'')],
      req_data = []\<rparr>"

definition ann_logged_in :: ToDoOversData where
  "ann_logged_in = init\<lparr>username := ''ann'', hab_user_id := ''u1'', api_token := ''nekot'',
                        logged_in := True, return_code := 200\<rparr>"

definition task_today :: ToDoOversData where
  "task_today = ann_logged_in\<lparr>task_name := ''water the plants'', task_days := 0,
                              priority := ''1'', notes' := ''balcony'', tags := [''g1'']\<rparr>"

definition task_in_3_days :: ToDoOversData where
  "task_in_3_days = task_today\<lparr>task_days := 3, task_id := ''t-41''\<rparr>"

definition accepting_task :: "http_request \<Rightarrow> task_json response" where
  "accepting_task rq = \<lparr>status_code = (if req_method rq = POST then 201 else 200),
                        json_data = \<lparr>task_json_id = ''t-42''\<rparr>\<rparr>"

definition rejecting_task :: "http_request \<Rightarrow> task_json response" where
  "rejecting_task rq = \<lparr>status_code = 400, json_data = \<lparr>task_json_id = ''''\<rparr>\<rparr>"

definition task_headers_ann :: "(string \<times> string) list" where
  "task_headers_ann = [(''x-api-user'', ''u1''), (''x-api-key'', ''token'')]"

definition create_request_today :: http_request where
  "create_request_today =
     \<lparr>req_method = POST, req_url = ''https://habitica.com/api/v3/tasks/user'',
      req_headers = task_headers_ann,
      req_data = [(''text'', FStr ''water the plants''), (''type'', FStr ''todo''),
                  (''notes'', FStr ''balcony''), (''priority'', FStr ''1''),
                  (''tags'', FList [''g1''])]\<rparr>"

definition create_request_in_3_days :: http_request where
  "create_request_in_3_days =
     \<lparr>req_method = POST, req_url = ''https://habitica.com/api/v3/tasks/user'',
      req_headers = task_headers_ann,
      req_data = [(''text'', FStr ''water the plants''), (''type'', FStr ''todo''),
                  (''notes'', FStr ''balcony''), (''date'', FStr ''2026-11-07T09:30:00''),
                  (''priority'', FStr ''1''), (''tags'', FList [''g1''])]\<rparr>"

definition edit_request_today :: http_request where
  "edit_request_today =
     \<lparr>req_method = PUT, req_url = ''https://habitica.com/api/v3/tasks/'',
      req_headers = task_headers_ann,
      req_data = [(''text'', FStr ''water the plants''),
                  (''notes'', FStr ''balcony''), (''priority'', FStr ''1''),
                  (''tags'', FList [''g1''])]\<rparr>"

definition edit_request_in_3_days :: http_request where
  "edit_request_in_3_days =
     \<lparr>req_method = PUT, req_url = ''https://habitica.com/api/v3/tasks/t-41'',
      req_headers = task_headers_ann,
      req_data = [(''text'', FStr ''water the plants''),
                  (''notes'', FStr ''balcony''), (''date'', FStr ''2026-11-07T09:30:00''),
                  (''priority'', FStr ''1''), (''tags'', FList [''g1''])]\<rparr>"

definition newcomer :: ToDoOversData where
  "newcomer = init\<lparr>username := ''ann''\<rparr>"

definition accepting_login :: "http_request \<Rightarrow> login_json response" where
  "accepting_login rq = \<lparr>status_code = 200,
     json_data = \<lparr>login_id = ''u1'', login_apiToken = ''token'', login_username = ''ann''\<rparr>\<rparr>"

definition accepting_user :: "http_request \<Rightarrow> user_json response" where
  "accepting_user rq = \<lparr>status_code = 200, json_data = \<lparr>profile_name = ''Ann''\<rparr>\<rparr>"

definition world_after_login :: world where
  "world_after_login =
     \<lparr>Users_objects = [\<lparr>user_id = ''u1'', api_key = ''nekot'', users_username = ''ann''\<rparr>],
      Tags_objects = [], sent = [login_request_ann]\<rparr>"

definition world_after_both_logins :: world where
  "world_after_both_logins =
     \<lparr>Users_objects = [\<lparr>user_id = ''u1'', api_key = ''nekot'', users_username = ''Ann''\<rparr>],
      Tags_objects = [], sent = [login_request_ann, user_request_ann]\<rparr>"

definition tags_request_ann :: http_request where
  "tags_request_ann =
     \<lparr>req_method = GET, req_url = ''https://habitica.com/api/v3/tags'',
      req_headers = task_headers_ann, req_data = []\<rparr>"

definition two_users :: "Users_row list" where
  "two_users = [\<lparr>user_id = ''u1'', api_key = ''nekot'', users_username = ''ann''\<rparr>,
                \<lparr>user_id = ''u2'', api_key = ''terces'', users_username = ''bob''\<rparr>]"

definition world_tags :: world where
  "world_tags =
     \<lparr>Users_objects = two_users,
      Tags_objects = [\<lparr>tag_id = ''2'', tag_owner = ''u1'', tag_text = ''office''\<rparr>,
                      \<lparr>tag_id = ''3'', tag_owner = ''u1'', tag_text = ''garden''\<rparr>,
                      \<lparr>tag_id = ''9'', tag_owner = ''u2'', tag_text = ''music''\<rparr>],
      sent = []\<rparr>"

definition home_work :: "tag_json list" where
  "home_work = [\<lparr>tag_json_id = ''1'', tag_json_name = code_points ''home''\<rparr>,
                \<lparr>tag_json_id = ''2'', tag_json_name = code_points ''work''\<rparr>]"

definition remote_home_work :: "http_request \<Rightarrow> tag_json list option response" where
  "remote_home_work rq = \<lparr>status_code = 200, json_data = Some home_work\<rparr>"

definition remote_no_tags :: "http_request \<Rightarrow> tag_json list option response" where
  "remote_no_tags rq = \<lparr>status_code = 200, json_data = Some []\<rparr>"

definition remote_unavailable :: "http_request \<Rightarrow> tag_json list option response" where
  "remote_unavailable rq = \<lparr>status_code = 503, json_data = None\<rparr>"

definition synced_tags :: "Tags_row list" where
  "synced_tags = [\<lparr>tag_id = ''2'', tag_owner = ''u1'', tag_text = ''work''\<rparr>,
                  \<lparr>tag_id = ''9'', tag_owner = ''u2'', tag_text = ''music''\<rparr>,
                  \<lparr>tag_id = ''1'', tag_owner = ''u1'', tag_text = ''home''\<rparr>]"

definition cafe :: tag_json where
  "cafe = \<lparr>tag_json_id = ''7'', tag_json_name = code_points ''caf'' @ [0xE9]\<rparr>"

definition ann_row :: Users_row where
  "ann_row = \<lparr>user_id = ''u1'', api_key = ''nekot'', users_username = ''ann''\<rparr>"

definition tags_home_inserted :: "Tags_row list" where
  "tags_home_inserted = [\<lparr>tag_id = ''2'', tag_owner = ''u1'', tag_text = ''office''\<rparr>,
                         \<lparr>tag_id = ''3'', tag_owner = ''u1'', tag_text = ''garden''\<rparr>,
                         \<lparr>tag_id = ''9'', tag_owner = ''u2'', tag_text = ''music''\<rparr>,
                         \<lparr>tag_id = ''1'', tag_owner = ''u1'', tag_text = ''home''\<rparr>]"

definition tags_work_updated :: "Tags_row list" where
  "tags_work_updated = [\<lparr>tag_id = ''2'', tag_owner = ''u1'', tag_text = ''work''\<rparr>,
                        \<lparr>tag_id = ''3'', tag_owner = ''u1'', tag_text = ''garden''\<rparr>,
                        \<lparr>tag_id = ''9'', tag_owner = ''u2'', tag_text = ''music''\<rparr>,
                        \<lparr>tag_id = ''1'', tag_owner = ''u1'', tag_text = ''home''\<rparr>]"

section \<open>Properties of the store and of the loops of \<open>get_user_tags\<close>\<close>

lemma map_tag_id_update:
  "map tag_id (map (\<lambda>r. if tag_id r = tid then r\<lparr>tag_owner := ow, tag_text := txt\<rparr> else r) tbl)
     = map tag_id tbl"
  by (induction tbl) simp_all

lemma Tags_update_or_create_ids:
  "set (map tag_id (Tags_update_or_create tid u txt tbl)) = insert tid (set (map tag_id tbl))"
proof (cases "tid \<in> set (map tag_id tbl)")
  case True
  then show ?thesis
    unfolding Tags_update_or_create_def by (simp only: if_True map_tag_id_update) auto
next
  case False
  then show ?thesis
    unfolding Tags_update_or_create_def by simp
qed

lemma Tags_update_or_create_unique:
  assumes "unique_tag_ids tbl"
  shows "unique_tag_ids (Tags_update_or_create tid u txt tbl)"
proof (cases "tid \<in> set (map tag_id tbl)")
  case True
  with assms show ?thesis
    unfolding Tags_update_or_create_def unique_tag_ids_def
    by (simp only: if_True map_tag_id_update)
next
  case False
  with assms show ?thesis
    by (simp add: Tags_update_or_create_def unique_tag_ids_def)
qed

lemma Tags_update_or_create_other:
  "tag_id r \<noteq> tid \<Longrightarrow> r \<in> set (Tags_update_or_create tid u txt tbl) \<longleftrightarrow> r \<in> set tbl"
  unfolding Tags_update_or_create_def by (induction tbl) auto

lemma Tags_update_or_create_row:
  assumes "r \<in> set (Tags_update_or_create tid u txt tbl)" and "tag_id r = tid"
  shows "tag_owner r = user_id u \<and> tag_text r = txt"
proof (cases "tid \<in> set (map tag_id tbl)")
  case True
  with assms(1) obtain r0 where r0: "r0 \<in> set tbl"
      and r: "r = (if tag_id r0 = tid then r0\<lparr>tag_owner := user_id u, tag_text := txt\<rparr> else r0)"
    unfolding Tags_update_or_create_def by (simp only: if_True set_map) blast
  show ?thesis
  proof (cases "tag_id r0 = tid")
    case True
    with r show ?thesis by simp
  next
    case False
    with r assms(2) show ?thesis by simp
  qed
next
  case False
  with assms(1) have "r \<in> set tbl \<or> r = \<lparr>tag_id = tid, tag_owner = user_id u, tag_text = txt\<rparr>"
    unfolding Tags_update_or_create_def by auto
  moreover have "r \<notin> set tbl"
    using False assms(2) by auto
  ultimately have eq: "r = \<lparr>tag_id = tid, tag_owner = user_id u, tag_text = txt\<rparr>"
    by blast
  show ?thesis
    by (simp add: eq)
qed


lemma Tags_update_or_create_present:
  "\<lparr>tag_id = tid, tag_owner = user_id u, tag_text = txt\<rparr> \<in> set (Tags_update_or_create tid u txt tbl)"
proof (cases "tid \<in> set (map tag_id tbl)")
  case True
  define f where "f = (\<lambda>r::Tags_row. if tag_id r = tid then r\<lparr>tag_owner := user_id u, tag_text := txt\<rparr> else r)"
  from True obtain r where r: "r \<in> set tbl" "tag_id r = tid" by auto
  have "f r = \<lparr>tag_id = tid, tag_owner = user_id u, tag_text = txt\<rparr>"
    using r(2) unfolding f_def by (cases r) simp
  moreover have "f r \<in> set (map f tbl)"
    using r(1) by simp
  moreover have "Tags_update_or_create tid u txt tbl = map f tbl"
    using True unfolding Tags_update_or_create_def f_def by (simp only: if_True)
  ultimately show ?thesis by simp
next
  case False
  then show ?thesis by (simp add: Tags_update_or_create_def)
qed

lemma delete_leftover_filter:
  "delete_leftover left tbl = filter (\<lambda>r. tag_id r \<notin> set left) tbl"
  by (induction left arbitrary: tbl) (auto simp: Tags_delete_def intro: filter_cong)

lemma remove1_distinct_filter:
  "distinct xs \<Longrightarrow> (if x \<in> set xs then remove1 x xs else xs) = filter (\<lambda>i. i \<noteq> x) xs"
  by (induction xs) (auto simp: filter_id_conv)

lemma add_update_tags_leftover:
  "distinct cur \<Longrightarrow>
     snd (add_update_tags u ts (tbl, cur)) = filter (\<lambda>i. i \<notin> tag_json_id ` set ts) cur"
proof (induction ts arbitrary: tbl cur)
  case Nil
  then show ?case by simp
next
  case (Cons t ts)
  have d: "distinct (filter (\<lambda>i. i \<noteq> tag_json_id t) cur)"
    using Cons.prems by simp
  have "snd (add_update_tags u (t # ts) (tbl, cur))
        = filter (\<lambda>i. i \<notin> tag_json_id ` set ts) (filter (\<lambda>i. i \<noteq> tag_json_id t) cur)"
    using Cons.IH [OF d] Cons.prems
    by (simp only: add_update_tags.simps Let_def remove1_distinct_filter)
  also have "\<dots> = filter (\<lambda>i. i \<notin> tag_json_id ` set (t # ts)) cur"
    by (auto intro: filter_cong)
  finally show ?case .
qed


lemma find_append_eq:
  "find P (xs @ ys) = (case find P xs of None \<Rightarrow> find P ys | Some x \<Rightarrow> Some x)"
  by (induction xs) simp_all

lemma add_update_tags_ids:
  "set (map tag_id (fst (add_update_tags u ts (tbl, cur))))
     = set (map tag_id tbl) \<union> tag_json_id ` set ts"
proof (induction ts arbitrary: tbl cur)
  case Nil
  then show ?case by simp
next
  case (Cons t ts)
  show ?case
    by (simp only: add_update_tags.simps Let_def Cons.IH Tags_update_or_create_ids encode_utf8_def)
       auto
qed

lemma add_update_tags_unique:
  "unique_tag_ids tbl \<Longrightarrow> unique_tag_ids (fst (add_update_tags u ts (tbl, cur)))"
proof (induction ts arbitrary: tbl cur)
  case Nil
  then show ?case by simp
next
  case (Cons t ts)
  show ?case
    by (simp only: add_update_tags.simps Let_def)
       (rule Cons.IH, rule Tags_update_or_create_unique, rule Cons.prems)
qed

lemma add_update_tags_other:
  "tag_id r \<notin> tag_json_id ` set ts \<Longrightarrow>
     r \<in> set (fst (add_update_tags u ts (tbl, cur))) \<longleftrightarrow> r \<in> set tbl"
proof (induction ts arbitrary: tbl cur)
  case Nil
  then show ?case by simp
next
  case (Cons t ts)
  from Cons.prems have a: "tag_id r \<notin> tag_json_id ` set ts" and b: "tag_id r \<noteq> tag_json_id t"
    by auto
  show ?case
    by (simp only: add_update_tags.simps Let_def Cons.IH [OF a] encode_utf8_def
          Tags_update_or_create_other [OF b])
qed

lemma add_update_tags_row:
  assumes "r \<in> set (fst (add_update_tags u ts (tbl, cur)))"
      and "tag_id r \<in> tag_json_id ` set ts"
  shows "tag_owner r = user_id u \<and>
         (\<exists>t. find (\<lambda>t. tag_json_id t = tag_id r) (rev ts) = Some t \<and>
              tag_text r = unicode_escape (tag_json_name t))"
  using assms
proof (induction ts arbitrary: tbl cur)
  case Nil
  then show ?case by simp
next
  case (Cons t ts)
  let ?tbl = "Tags_update_or_create (tag_json_id t) u (unicode_escape (tag_json_name t)) tbl"
  let ?cur = "if tag_json_id t \<in> set cur then remove1 (tag_json_id t) cur else cur"
  have mem: "r \<in> set (fst (add_update_tags u ts (?tbl, ?cur)))"
    using Cons.prems(1) by (simp only: add_update_tags.simps Let_def encode_utf8_def)
  show ?case
  proof (cases "tag_id r \<in> tag_json_id ` set ts")
    case True
    from Cons.IH [OF mem True] show ?thesis
      by (auto simp: find_append_eq)
  next
    case False
    with Cons.prems(2) have eq: "tag_id r = tag_json_id t" by auto
    from mem have "r \<in> set ?tbl"
      unfolding add_update_tags_other [OF False] .
    from Tags_update_or_create_row [OF this eq]
    have "tag_owner r = user_id u" and "tag_text r = unicode_escape (tag_json_name t)"
      by simp_all
    moreover from False have "find (\<lambda>t. tag_json_id t = tag_id r) (rev ts) = None"
      unfolding find_None_iff by (metis imageI set_rev)
    ultimately show ?thesis
      using eq by (simp add: find_append_eq)
  qed
qed


lemma add_update_tags_existing:
  "tag_json_id ` set ts \<subseteq> set (map tag_id tbl) \<Longrightarrow>
     fst (add_update_tags u ts (tbl, cur)) =
       map (\<lambda>r. case find (\<lambda>t. tag_json_id t = tag_id r) (rev ts) of
                   None \<Rightarrow> r
                 | Some t \<Rightarrow> r\<lparr>tag_owner := user_id u,
                                tag_text := unicode_escape (tag_json_name t)\<rparr>) tbl"
proof (induction ts arbitrary: tbl cur)
  case Nil
  then show ?case by simp
next
  case (Cons t ts)
  let ?f = "\<lambda>r::Tags_row. if tag_id r = tag_json_id t
              then r\<lparr>tag_owner := user_id u, tag_text := unicode_escape (tag_json_name t)\<rparr>
              else r"
  let ?cur = "if tag_json_id t \<in> set cur then remove1 (tag_json_id t) cur else cur"
  from Cons.prems have here: "tag_json_id t \<in> set (map tag_id tbl)" by simp
  then have up: "Tags_update_or_create (tag_json_id t) u (unicode_escape (tag_json_name t)) tbl
                 = map ?f tbl"
    unfolding Tags_update_or_create_def by (simp only: if_True)
  have keys: "tag_json_id ` set ts \<subseteq> set (map tag_id (map ?f tbl))"
    using Cons.prems by (simp only: map_tag_id_update) simp
  have "fst (add_update_tags u (t # ts) (tbl, cur)) = fst (add_update_tags u ts (map ?f tbl, ?cur))"
    by (simp only: add_update_tags.simps Let_def encode_utf8_def up)
  also note Cons.IH [OF keys]
  finally show ?case
    by (simp add: find_append_eq split: option.split)
qed

lemma reconcile_owned:
  assumes uniq: "unique_tag_ids T0"
      and run: "add_update_tags u ts (T0, map tag_id (Tags_filter_owner u T0)) = (T1, left)"
  shows "tag_id ` {r \<in> set (delete_leftover left T1). tag_owner r = user_id u}
           = tag_json_id ` set ts"
proof -
  have d: "distinct (map tag_id (Tags_filter_owner u T0))"
    using uniq unfolding unique_tag_ids_def Tags_filter_owner_def by (rule distinct_map_filter)
  have T1: "T1 = fst (add_update_tags u ts (T0, map tag_id (Tags_filter_owner u T0)))"
    using run by simp
  have left: "left = filter (\<lambda>i. i \<notin> tag_json_id ` set ts) (map tag_id (Tags_filter_owner u T0))"
    using add_update_tags_leftover [OF d, of u ts T0] run by simp
  show ?thesis
  proof (intro set_eqI iffI)
    fix i
    assume "i \<in> tag_id ` {r \<in> set (delete_leftover left T1). tag_owner r = user_id u}"
    then obtain r where r: "r \<in> set T1" "tag_id r \<notin> set left" "tag_owner r = user_id u" "i = tag_id r"
      by (auto simp: delete_leftover_filter)
    show "i \<in> tag_json_id ` set ts"
    proof (rule ccontr)
      assume "i \<notin> tag_json_id ` set ts"
      then have no: "tag_id r \<notin> tag_json_id ` set ts" using r(4) by simp
      from r(1) have "r \<in> set T0"
        unfolding T1 add_update_tags_other [OF no] .
      with r(3) have "tag_id r \<in> set (map tag_id (Tags_filter_owner u T0))"
        by (simp add: Tags_filter_owner_def)
      with no have "tag_id r \<in> set left"
        unfolding left by simp
      with r(2) show False by contradiction
    qed
  next
    fix i
    assume i: "i \<in> tag_json_id ` set ts"
    then have "i \<in> set (map tag_id T1)"
      unfolding T1 add_update_tags_ids by simp
    then obtain r where r: "r \<in> set T1" "tag_id r = i" by auto
    from r i have "tag_owner r = user_id u"
      using add_update_tags_row [of r u ts T0 "map tag_id (Tags_filter_owner u T0)"] T1 by simp
    moreover from i r(2) have "tag_id r \<notin> set left"
      unfolding left by simp
    ultimately show "i \<in> tag_id ` {r \<in> set (delete_leftover left T1). tag_owner r = user_id u}"
      using r by (auto simp: delete_leftover_filter)
  qed
qed


lemma reconcile_unique:
  assumes uniq: "unique_tag_ids T0"
      and run: "add_update_tags u ts (T0, cur) = (T1, left)"
  shows "unique_tag_ids (delete_leftover left T1)"
proof -
  have "unique_tag_ids T1"
    using add_update_tags_unique [OF uniq, of u ts cur] run by simp
  then show ?thesis
    unfolding unique_tag_ids_def delete_leftover_filter by (rule distinct_map_filter)
qed

lemma reconcile_fixpoint:
  assumes uniq: "unique_tag_ids T0"
      and run1: "add_update_tags u ts (T0, map tag_id (Tags_filter_owner u T0)) = (T1, left)"
      and T2: "T2 = delete_leftover left T1"
      and run2: "add_update_tags u ts (T2, map tag_id (Tags_filter_owner u T2)) = (T3, left')"
  shows "delete_leftover left' T3 = T2"
proof -
  have owned: "tag_id ` {r \<in> set T2. tag_owner r = user_id u} = tag_json_id ` set ts"
    unfolding T2 by (rule reconcile_owned [OF uniq run1])
  have uniq2: "unique_tag_ids T2"
    unfolding T2 by (rule reconcile_unique [OF uniq run1])
  have d2: "distinct (map tag_id (Tags_filter_owner u T2))"
    using uniq2 unfolding unique_tag_ids_def Tags_filter_owner_def by (rule distinct_map_filter)
  have "set (map tag_id (Tags_filter_owner u T2)) = tag_json_id ` set ts"
    using owned by (simp add: Tags_filter_owner_def)
  then have "filter (\<lambda>i. i \<notin> tag_json_id ` set ts) (map tag_id (Tags_filter_owner u T2)) = []"
    by (simp only: filter_empty_conv) simp
  then have left': "left' = []"
    using add_update_tags_leftover [OF d2, of u ts T2] run2 by simp
  have keys: "tag_json_id ` set ts \<subseteq> set (map tag_id T2)"
    using owned by auto
  have sub: "set T2 \<subseteq> set T1"
    unfolding T2 delete_leftover_filter by simp
  have T1: "T1 = fst (add_update_tags u ts (T0, map tag_id (Tags_filter_owner u T0)))"
    using run1 by simp
  have same: "(case find (\<lambda>t. tag_json_id t = tag_id r) (rev ts) of
                None \<Rightarrow> r
              | Some t \<Rightarrow> r\<lparr>tag_owner := user_id u,
                             tag_text := unicode_escape (tag_json_name t)\<rparr>) = r"
    if r: "r \<in> set T2" for r
  proof (cases "tag_id r \<in> tag_json_id ` set ts")
    case True
    from r sub have "r \<in> set (fst (add_update_tags u ts (T0, map tag_id (Tags_filter_owner u T0))))"
      unfolding T1 by auto
    from add_update_tags_row [OF this True] show ?thesis
      by auto
  next
    case False
    then have "find (\<lambda>t. tag_json_id t = tag_id r) (rev ts) = None"
      unfolding find_None_iff by (metis imageI set_rev)
    then show ?thesis by simp
  qed
  have "T3 = fst (add_update_tags u ts (T2, map tag_id (Tags_filter_owner u T2)))"
    using run2 by simp
  also have "\<dots> = T2"
    unfolding add_update_tags_existing [OF keys] using same by (simp add: map_idI)
  finally show ?thesis
    using left' by simp
qed

section \<open>login and login\_api\_key\<close>

lemma login_not_200:
  assumes "login env remote password s w = (out, s', w')" "sent w' = sent w @ [rq]"
    "status_code (remote rq) \<noteq> 200"
  shows "out = Return False \<and> s' = s\<lparr>return_code := status_code (remote rq)\<rparr> \<and>
        Users_objects w' = Users_objects w \<and> Tags_objects w' = Tags_objects w"
  using assms unfolding login_def by (auto simp: Let_def split: if_splits option.splits)

lemma login_api_key_not_200:
  assumes "login_api_key env remote s w = (out, s', w')" "sent w' = sent w @ [rq]"
    "status_code (remote rq) \<noteq> 200"
  shows "out = Return False \<and> s' = s\<lparr>return_code := status_code (remote rq)\<rparr> \<and>
        Users_objects w' = Users_objects w \<and> Tags_objects w' = Tags_objects w"
  using assms unfolding login_api_key_def by (auto simp: Let_def split: if_splits option.splits)

text \<open>
  Claim C6. When the remote system answers a login attempt with a status other than 200,
  \<open>login\<close> and \<open>login_api_key\<close> return \<open>False\<close>; the session is the one before the call
  except for \<open>return_code\<close>, which holds the status returned (so \<open>logged_in\<close>, the user
  id, the user name and the token are not touched); no row of the user table is written.
  The request \<open>rq\<close> is the one the call has issued, \<open>remote rq\<close> the answer to it.
\<close>

theorem login_failure:
  "(login env remote password s w = (out, s', w') \<longrightarrow> sent w' = sent w @ [rq] \<longrightarrow>
      status_code (remote rq) \<noteq> 200 \<longrightarrow>
        out = Return False \<and> s' = s\<lparr>return_code := status_code (remote rq)\<rparr> \<and>
        Users_objects w' = Users_objects w \<and> Tags_objects w' = Tags_objects w) \<and>
   (login_api_key env remote_k sk wk = (outk, sk', wk') \<longrightarrow> sent wk' = sent wk @ [rqk] \<longrightarrow>
      status_code (remote_k rqk) \<noteq> 200 \<longrightarrow>
        outk = Return False \<and> sk' = sk\<lparr>return_code := status_code (remote_k rqk)\<rparr> \<and>
        Users_objects wk' = Users_objects wk \<and> Tags_objects wk' = Tags_objects wk)"
  using login_not_200 [of env remote password s w out s' w' rq]
    login_api_key_not_200 [of env remote_k sk wk outk sk' wk' rqk]
  by blast

theorem login_failure_witness:
  "login example_env rejecting_login ''secret'' ann empty_world
     = (Return False, ann\<lparr>return_code := 401\<rparr>, empty_world\<lparr>sent := [login_request_ann]\<rparr>) \<and>
   status_code (rejecting_login login_request_ann) \<noteq> 200 \<and>
   logged_in (ann\<lparr>return_code := 401\<rparr>) = False \<and>
   Users_objects (empty_world\<lparr>sent := [login_request_ann]\<rparr>) = Users_objects empty_world \<and>
   login_api_key example_env rejecting_user ann empty_world
     = (Return False, ann\<lparr>return_code := 401\<rparr>, empty_world\<lparr>sent := [user_request_ann]\<rparr>) \<and>
   status_code (rejecting_user user_request_ann) \<noteq> 200"
proof -
  have a: "login example_env rejecting_login ''secret'' ann empty_world
     = (Return False, ann\<lparr>return_code := 401\<rparr>, empty_world\<lparr>sent := [login_request_ann]\<rparr>)"
    by (simp add: login_def example_env_def rejecting_login_def ann_def init_def empty_world_def
          Let_def login_request_ann_def)
  have b: "login_api_key example_env rejecting_user ann empty_world
     = (Return False, ann\<lparr>return_code := 401\<rparr>, empty_world\<lparr>sent := [user_request_ann]\<rparr>)"
    by (simp add: login_api_key_def example_env_def rejecting_user_def ann_def init_def
          empty_world_def Let_def encode_utf8_def user_request_ann_def)
  have c: "sent (empty_world\<lparr>sent := [login_request_ann]\<rparr>) = sent empty_world @ [login_request_ann]"
    "sent (empty_world\<lparr>sent := [user_request_ann]\<rparr>) = sent empty_world @ [user_request_ann]"
    by (simp_all add: empty_world_def)
  have d: "status_code (rejecting_login login_request_ann) \<noteq> 200"
    "status_code (rejecting_user user_request_ann) \<noteq> 200"
    by (simp_all add: rejecting_login_def rejecting_user_def)
  show ?thesis
    using login_failure [of example_env rejecting_login "''secret''" ann empty_world
        "Return False" "ann\<lparr>return_code := 401\<rparr>" "empty_world\<lparr>sent := [login_request_ann]\<rparr>"
        login_request_ann rejecting_user ann empty_world "Return False"
        "ann\<lparr>return_code := 401\<rparr>" "empty_world\<lparr>sent := [user_request_ann]\<rparr>"
        user_request_ann] a b c d
    by (simp add: ann_def init_def)
qed

lemma filter_key_distinct:
  "distinct (map g xs) \<Longrightarrow> x \<in> set xs \<Longrightarrow> filter (\<lambda>r. g r = g x) xs = [x]"
proof (induction xs)
  case Nil
  then show ?case by simp
next
  case (Cons y ys)
  show ?case
  proof (cases "y = x")
    case True
    with Cons.prems have "g x \<notin> g ` set ys" by simp
    then have "\<forall>r \<in> set ys. g r \<noteq> g x" by (metis imageI)
    then have "filter (\<lambda>r. g r = g x) ys = []" by (simp add: filter_empty_conv)
    with True show ?thesis by simp
  next
    case False
    with Cons.prems have "x \<in> set ys" "g y \<noteq> g x" by auto
    with Cons show ?thesis by simp
  qed
qed

lemma map_user_id_update:
  "map user_id (map (\<lambda>r. if user_id r = uid then r\<lparr>api_key := k, users_username := n\<rparr> else r) tbl)
     = map user_id tbl"
  by (induction tbl) simp_all

lemma Users_update_or_create_unique:
  assumes "unique_user_ids tbl"
  shows "unique_user_ids (Users_update_or_create uid k n tbl)"
proof (cases "uid \<in> set (map user_id tbl)")
  case True
  with assms show ?thesis
    unfolding Users_update_or_create_def unique_user_ids_def
    by (simp only: if_True map_user_id_update)
next
  case False
  with assms show ?thesis
    by (simp add: Users_update_or_create_def unique_user_ids_def)
qed

lemma Users_update_or_create_row:
  assumes "unique_user_ids tbl"
  shows "filter (\<lambda>r. user_id r = uid) (Users_update_or_create uid k n tbl)
           = [\<lparr>user_id = uid, api_key = k, users_username = n\<rparr>]"
proof (cases "uid \<in> set (map user_id tbl)")
  case True
  define f where "f = (\<lambda>r::Users_row. if user_id r = uid then r\<lparr>api_key := k, users_username := n\<rparr> else r)"
  from True obtain r where r: "r \<in> set tbl" "user_id r = uid" by auto
  have one: "filter (\<lambda>x. user_id x = uid) tbl = [r]"
    using filter_key_distinct [of user_id tbl r] assms r unfolding unique_user_ids_def by simp
  have "filter (\<lambda>r. user_id r = uid) (map f tbl) = map f (filter (\<lambda>r. user_id r = uid) tbl)"
    unfolding f_def by (induction tbl) simp_all
  also have "\<dots> = [f r]" by (simp add: one)
  also have "f r = \<lparr>user_id = uid, api_key = k, users_username = n\<rparr>"
    using r(2) unfolding f_def by (cases r) simp
  finally show ?thesis
    using True unfolding Users_update_or_create_def f_def by (simp only: if_True)
next
  case False
  then have "filter (\<lambda>r. user_id r = uid) tbl = []"
    by (auto simp: filter_empty_conv)
  with False show ?thesis
    by (simp add: Users_update_or_create_def)
qed

lemma login_True:
  assumes "login env remote password s w = (Return True, s', w')"
  shows "logged_in s' \<and>
         Users_objects w' =
           Users_update_or_create (hab_user_id s') (api_token s') (username s') (Users_objects w)"
  using assms unfolding login_def
  by (auto simp: Let_def split: if_splits option.splits)

lemma login_api_key_True:
  assumes "login_api_key env remote s w = (Return True, s', w')"
  shows "logged_in s' \<and> hab_user_id s' = hab_user_id s \<and> api_token s' = api_token s \<and>
         Users_objects w' =
           Users_update_or_create (hab_user_id s') (api_token s') (username s') (Users_objects w)"
  using assms unfolding login_api_key_def
  by (auto simp: Let_def split: if_splits option.splits)

text \<open>
  Claim C7. Let the user table have unique user ids. After a successful \<open>login\<close> and a
  following successful \<open>login_api_key\<close> of a session with the same user id, the table has
  exactly one row with that id, holding the token and the user name of the session after
  the second login. The first login leaves one such row as well, and the second one does
  not change the number of rows: it updates the row.
\<close>

theorem one_user_record:
  assumes "unique_user_ids (Users_objects w)"
      and "login env remote password s w = (Return True, s1, w1)"
      and "hab_user_id s2 = hab_user_id s1"
      and "login_api_key env remote_k s2 w1 = (Return True, s3, w3)"
  shows "filter (\<lambda>r. user_id r = hab_user_id s1) (Users_objects w3)
           = [\<lparr>user_id = hab_user_id s1, api_key = api_token s3, users_username = username s3\<rparr>] \<and>
         length (filter (\<lambda>r. user_id r = hab_user_id s1) (Users_objects w1)) = 1 \<and>
         length (Users_objects w3) = length (Users_objects w1)"
proof -
  have u1: "unique_user_ids (Users_objects w1)"
    using login_True [OF assms(2)] Users_update_or_create_unique [OF assms(1)] by simp
  have first: "length (filter (\<lambda>r. user_id r = hab_user_id s1) (Users_objects w1)) = 1"
    using login_True [OF assms(2)] Users_update_or_create_row [OF assms(1)] by simp
  then have "hab_user_id s1 \<in> set (map user_id (Users_objects w1))"
    by (cases "filter (\<lambda>r. user_id r = hab_user_id s1) (Users_objects w1)")
       (auto dest: filter_eq_ConsD)
  moreover have k: "hab_user_id s3 = hab_user_id s1"
    using login_api_key_True [OF assms(4)] assms(3) by simp
  ultimately have "length (Users_objects w3) = length (Users_objects w1)"
    using login_api_key_True [OF assms(4)]
    by (simp add: Users_update_or_create_def del: set_map)
  moreover have "filter (\<lambda>r. user_id r = hab_user_id s1) (Users_objects w3)
           = [\<lparr>user_id = hab_user_id s1, api_key = api_token s3, users_username = username s3\<rparr>]"
    using login_api_key_True [OF assms(4)] Users_update_or_create_row [OF u1] k by simp
  ultimately show ?thesis using first by simp
qed

theorem one_user_record_witness:
  "unique_user_ids (Users_objects empty_world) \<and>
   login example_env accepting_login ''secret'' newcomer empty_world
     = (Return True, ann_logged_in, world_after_login) \<and>
   login_api_key example_env accepting_user ann_logged_in world_after_login
     = (Return True, ann_logged_in\<lparr>username := ''Ann''\<rparr>, world_after_both_logins) \<and>
   filter (\<lambda>r. user_id r = ''u1'') (Users_objects world_after_both_logins)
     = [\<lparr>user_id = ''u1'', api_key = ''nekot'', users_username = ''Ann''\<rparr>] \<and>
   length (Users_objects world_after_both_logins) = 1"
proof -
  have a: "unique_user_ids (Users_objects empty_world)"
    by (simp add: unique_user_ids_def empty_world_def)
  have b: "login example_env accepting_login ''secret'' newcomer empty_world
     = (Return True, ann_logged_in, world_after_login)"
    by (simp add: login_def example_env_def accepting_login_def newcomer_def init_def
          empty_world_def Let_def encode_utf8_def Users_update_or_create_def
          ann_logged_in_def world_after_login_def login_request_ann_def)
  have c: "login_api_key example_env accepting_user ann_logged_in world_after_login
     = (Return True, ann_logged_in\<lparr>username := ''Ann''\<rparr>, world_after_both_logins)"
    by (simp add: login_api_key_def example_env_def accepting_user_def init_def
          Let_def encode_utf8_def Users_update_or_create_def
          ann_logged_in_def world_after_login_def world_after_both_logins_def
          user_request_ann_def)
  have d: "hab_user_id ann_logged_in = ''u1''"
    by (simp add: ann_logged_in_def init_def)
  show ?thesis
    using one_user_record [OF a b refl c] a b c d
    by (simp add: world_after_both_logins_def)
qed

section \<open>create\_task and edit\_task\<close>

text \<open>
  What a call that has issued its request \<open>rq\<close> returns and leaves in the session, and
  what the request is. \<open>remote rq\<close> is the answer of the remote system.
\<close>

lemma create_task_answer:
  assumes "create_task env remote path s w = (out, s', w')" "sent w' = sent w @ [rq]"
  shows "out = Return (status_code (remote rq) = 201) \<and>
         s' = (if status_code (remote rq) = 201
               then s\<lparr>return_code := 201, task_id := task_json_id (json_data (remote rq))\<rparr>
               else s\<lparr>return_code := status_code (remote rq)\<rparr>) \<and>
         Users_objects w' = Users_objects w \<and> Tags_objects w' = Tags_objects w"
  using assms unfolding create_task_def
  by (auto simp: Let_def split: if_splits option.splits)

lemma edit_task_answer:
  assumes "edit_task env remote s w = (out, s', w')" "sent w' = sent w @ [rq]"
  shows "out = Return (status_code (remote rq) = 200) \<and>
         s' = (if status_code (remote rq) = 200
               then s\<lparr>return_code := 200, task_id := task_json_id (json_data (remote rq))\<rparr>
               else s\<lparr>return_code := status_code (remote rq)\<rparr>) \<and>
         Users_objects w' = Users_objects w \<and> Tags_objects w' = Tags_objects w"
  using assms unfolding edit_task_def
  by (auto simp: Let_def split: if_splits option.splits)

lemma create_task_request:
  assumes "create_task env remote path s w = (out, s', w')" "sent w' = sent w @ [rq]"
  shows "req_method rq = POST \<and> req_url rq = ''https://habitica.com/api/v3/tasks/user'' \<and>
         (if 0 < task_days s
          then \<exists>due. plus_days env (now env) (task_days s) = Some due \<and>
                 req_data rq = [(''text'', FStr (task_name s)), (''type'', FStr ''todo''),
                                (''notes'', FStr (notes' s)), (''date'', FStr (isoformat env due)),
                                (''priority'', FStr (priority s)), (''tags'', FList (tags s))]
          else req_data rq = [(''text'', FStr (task_name s)), (''type'', FStr ''todo''),
                              (''notes'', FStr (notes' s)),
                              (''priority'', FStr (priority s)), (''tags'', FList (tags s))])"
  using assms unfolding create_task_def
  by (auto simp: Let_def split: if_splits option.splits)

lemma edit_task_request:
  assumes "edit_task env remote s w = (out, s', w')" "sent w' = sent w @ [rq]"
  shows "req_method rq = PUT \<and> req_url rq = ''https://habitica.com/api/v3/tasks/'' @ task_id s \<and>
         (if 0 < task_days s
          then \<exists>due. plus_days env (now env) (task_days s) = Some due \<and>
                 req_data rq = [(''text'', FStr (task_name s)),
                                (''notes'', FStr (notes' s)), (''date'', FStr (isoformat env due)),
                                (''priority'', FStr (priority s)), (''tags'', FList (tags s))]
          else req_data rq = [(''text'', FStr (task_name s)),
                              (''notes'', FStr (notes' s)),
                              (''priority'', FStr (priority s)), (''tags'', FList (tags s))])"
  using assms unfolding edit_task_def
  by (auto simp: Let_def split: if_splits option.splits)

text \<open>
  The request is issued whenever the token decrypts and, for a task with a due date, the
  date can be computed; otherwise the call raises before any request.
\<close>

lemma create_task_issues:
  assumes "decrypt_text env (encode_utf8 (api_token s)) (Some path) = Some key"
      and "0 < task_days s \<longrightarrow> plus_days env (now env) (task_days s) \<noteq> None"
  shows "\<exists>rq. sent (snd (snd (create_task env remote path s w))) = sent w @ [rq]"
  using assms unfolding create_task_def
  by (auto simp: Let_def split: if_splits option.splits)

lemma edit_task_issues:
  assumes "decrypt_text env (encode_utf8 (api_token s)) None = Some key"
      and "0 < task_days s \<longrightarrow> plus_days env (now env) (task_days s) \<noteq> None"
  shows "\<exists>rq. sent (snd (snd (edit_task env remote s w))) = sent w @ [rq]"
  using assms unfolding edit_task_def
  by (auto simp: Let_def split: if_splits option.splits)

lemma create_task_returns:
  assumes "create_task env remote path s w = (Return b, s', w')"
  shows "\<exists>rq. sent w' = sent w @ [rq]"
  using assms unfolding create_task_def
  by (auto simp: Let_def split: if_splits option.splits)

lemma create_task_raises:
  assumes "create_task env remote path s w = (Raise e, s', w')"
  shows "s' = s \<and> w' = w"
  using assms unfolding create_task_def
  by (auto simp: Let_def split: if_splits option.splits)

lemma create_task_sends:
  assumes "decrypt_text env (encode_utf8 (api_token s)) (Some path) = Some key"
      and "0 < task_days s \<longrightarrow> plus_days env (now env) (task_days s) \<noteq> None"
      and "create_task env remote path s w = (out, s', w')"
  shows "\<exists>rq. sent w' = sent w @ [rq]"
  using create_task_issues [OF assms(1,2), of remote w] assms(3) by simp

lemma edit_task_sends:
  assumes "decrypt_text env (encode_utf8 (api_token s)) None = Some key"
      and "0 < task_days s \<longrightarrow> plus_days env (now env) (task_days s) \<noteq> None"
      and "edit_task env remote s w = (out, s', w')"
  shows "\<exists>rq. sent w' = sent w @ [rq]"
  using edit_task_issues [OF assms(1,2), of remote w] assms(3) by simp

text \<open>The four example calls, evaluated.\<close>

lemma create_today_run:
  "create_task example_env accepting_task ''cipher.bin'' task_today empty_world
     = (Return True, task_today\<lparr>return_code := 201, task_id := ''t-42''\<rparr>,
        empty_world\<lparr>sent := [create_request_today]\<rparr>)"
  by (simp add: create_task_def example_env_def accepting_task_def task_today_def ann_logged_in_def init_def
        empty_world_def Let_def encode_utf8_def create_request_today_def task_headers_ann_def)

lemma create_in_3_days_run:
  "create_task example_env rejecting_task ''cipher.bin'' task_in_3_days empty_world
     = (Return False, task_in_3_days\<lparr>return_code := 400\<rparr>,
        empty_world\<lparr>sent := [create_request_in_3_days]\<rparr>)"
  by (simp add: create_task_def example_env_def rejecting_task_def task_in_3_days_def
        task_today_def ann_logged_in_def init_def empty_world_def Let_def encode_utf8_def
        create_request_in_3_days_def task_headers_ann_def)

lemma edit_today_run:
  "edit_task example_env accepting_task task_today empty_world
     = (Return True, task_today\<lparr>return_code := 200, task_id := ''t-42''\<rparr>,
        empty_world\<lparr>sent := [edit_request_today]\<rparr>)"
  by (simp add: edit_task_def example_env_def accepting_task_def task_today_def ann_logged_in_def init_def
        empty_world_def Let_def encode_utf8_def edit_request_today_def task_headers_ann_def)

lemma edit_in_3_days_run:
  "edit_task example_env accepting_task task_in_3_days empty_world
     = (Return True, task_in_3_days\<lparr>return_code := 200, task_id := ''t-42''\<rparr>,
        empty_world\<lparr>sent := [edit_request_in_3_days]\<rparr>)"
  by (simp add: edit_task_def example_env_def accepting_task_def task_in_3_days_def
        task_today_def ann_logged_in_def init_def empty_world_def Let_def encode_utf8_def
        edit_request_in_3_days_def task_headers_ann_def)


lemma example_token:
  "decrypt_text example_env (encode_utf8 (api_token task_today)) path = Some ''token''"
  "decrypt_text example_env (encode_utf8 (api_token task_in_3_days)) path = Some ''token''"
  by (simp_all add: example_env_def encode_utf8_def task_in_3_days_def task_today_def
        ann_logged_in_def init_def)

lemma example_days:
  "task_days task_today = 0" "task_days task_in_3_days = 3"
  "logged_in task_today" "logged_in task_in_3_days"
  by (simp_all add: task_in_3_days_def task_today_def ann_logged_in_def init_def)

lemma example_clock:
  "plus_days example_env (now example_env) 3 = Some 6"
  "isoformat example_env 6 = ''2026-11-07T09:30:00''"
  by (simp_all add: example_env_def)

text \<open>
  Claim C2. A call of \<open>create_task\<close> or \<open>edit_task\<close> whose token decrypts and whose due
  date, if there is one, can be computed issues one request. That request has no
  \<^verbatim>\<open>date\<close> field when \<open>task_days\<close> is 0 (and, as in the code, whenever it is not
  positive). When \<open>task_days\<close> is positive, the \<^verbatim>\<open>date\<close> field is the \<open>isoformat\<close>
  rendering of the time of the call plus \<open>task_days\<close> days.
\<close>

theorem due_date_field:
  "(decrypt_text env (encode_utf8 (api_token s)) (Some path) = Some key \<longrightarrow>
    (0 < task_days s \<longrightarrow> plus_days env (now env) (task_days s) \<noteq> None) \<longrightarrow>
    create_task env remote path s w = (out, s', w') \<longrightarrow>
      (\<exists>rq. sent w' = sent w @ [rq] \<and> req_method rq = POST \<and>
         (task_days s \<le> 0 \<longrightarrow> ''date'' \<notin> fst ` set (req_data rq)) \<and>
         (0 < task_days s \<longrightarrow>
            (\<exists>due. plus_days env (now env) (task_days s) = Some due \<and>
               map_of (req_data rq) ''date'' = Some (FStr (isoformat env due)))))) \<and>
   (decrypt_text env (encode_utf8 (api_token se)) None = Some keye \<longrightarrow>
    (0 < task_days se \<longrightarrow> plus_days env (now env) (task_days se) \<noteq> None) \<longrightarrow>
    edit_task env remote_e se we = (oute, se', we') \<longrightarrow>
      (\<exists>rq. sent we' = sent we @ [rq] \<and> req_method rq = PUT \<and>
         (task_days se \<le> 0 \<longrightarrow> ''date'' \<notin> fst ` set (req_data rq)) \<and>
         (0 < task_days se \<longrightarrow>
            (\<exists>due. plus_days env (now env) (task_days se) = Some due \<and>
               map_of (req_data rq) ''date'' = Some (FStr (isoformat env due))))))"
proof -
  have c: "\<exists>rq. sent w' = sent w @ [rq] \<and> req_method rq = POST \<and>
         (task_days s \<le> 0 \<longrightarrow> ''date'' \<notin> fst ` set (req_data rq)) \<and>
         (0 < task_days s \<longrightarrow>
            (\<exists>due. plus_days env (now env) (task_days s) = Some due \<and>
               map_of (req_data rq) ''date'' = Some (FStr (isoformat env due))))"
    if h: "decrypt_text env (encode_utf8 (api_token s)) (Some path) = Some key"
      "0 < task_days s \<longrightarrow> plus_days env (now env) (task_days s) \<noteq> None"
      "create_task env remote path s w = (out, s', w')"
  proof -
    from create_task_sends [OF h] obtain rq where rq: "sent w' = sent w @ [rq]" ..
    from create_task_request [OF h(3) rq]
    have "req_method rq = POST \<and>
         (task_days s \<le> 0 \<longrightarrow> ''date'' \<notin> fst ` set (req_data rq)) \<and>
         (0 < task_days s \<longrightarrow>
            (\<exists>due. plus_days env (now env) (task_days s) = Some due \<and>
               map_of (req_data rq) ''date'' = Some (FStr (isoformat env due))))"
      by (cases "0 < task_days s") auto
    with rq show ?thesis by blast
  qed
  have e: "\<exists>rq. sent we' = sent we @ [rq] \<and> req_method rq = PUT \<and>
         (task_days se \<le> 0 \<longrightarrow> ''date'' \<notin> fst ` set (req_data rq)) \<and>
         (0 < task_days se \<longrightarrow>
            (\<exists>due. plus_days env (now env) (task_days se) = Some due \<and>
               map_of (req_data rq) ''date'' = Some (FStr (isoformat env due))))"
    if h: "decrypt_text env (encode_utf8 (api_token se)) None = Some keye"
      "0 < task_days se \<longrightarrow> plus_days env (now env) (task_days se) \<noteq> None"
      "edit_task env remote_e se we = (oute, se', we')"
  proof -
    from edit_task_sends [OF h] obtain rq where rq: "sent we' = sent we @ [rq]" ..
    from edit_task_request [OF h(3) rq]
    have "req_method rq = PUT \<and>
         (task_days se \<le> 0 \<longrightarrow> ''date'' \<notin> fst ` set (req_data rq)) \<and>
         (0 < task_days se \<longrightarrow>
            (\<exists>due. plus_days env (now env) (task_days se) = Some due \<and>
               map_of (req_data rq) ''date'' = Some (FStr (isoformat env due))))"
      by (cases "0 < task_days se") auto
    with rq show ?thesis by blast
  qed
  from c e show ?thesis by blast
qed

theorem due_date_field_witness:
  "decrypt_text example_env (encode_utf8 (api_token task_in_3_days)) (Some ''cipher.bin'')
     = Some ''token'' \<and>
   task_days task_in_3_days = 3 \<and>
   plus_days example_env (now example_env) 3 = Some 6 \<and>
   isoformat example_env 6 = ''2026-11-07T09:30:00'' \<and>
   create_task example_env rejecting_task ''cipher.bin'' task_in_3_days empty_world
     = (Return False, task_in_3_days\<lparr>return_code := 400\<rparr>,
        empty_world\<lparr>sent := [create_request_in_3_days]\<rparr>) \<and>
   map_of (req_data create_request_in_3_days) ''date'' = Some (FStr ''2026-11-07T09:30:00'') \<and>
   decrypt_text example_env (encode_utf8 (api_token task_today)) None = Some ''token'' \<and>
   task_days task_today = 0 \<and>
   edit_task example_env accepting_task task_today empty_world
     = (Return True, task_today\<lparr>return_code := 200, task_id := ''t-42''\<rparr>,
        empty_world\<lparr>sent := [edit_request_today]\<rparr>) \<and>
   ''date'' \<notin> fst ` set (req_data edit_request_today) \<and>
   create_task example_env accepting_task ''cipher.bin'' task_today empty_world
     = (Return True, task_today\<lparr>return_code := 201, task_id := ''t-42''\<rparr>,
        empty_world\<lparr>sent := [create_request_today]\<rparr>) \<and>
   ''date'' \<notin> fst ` set (req_data create_request_today) \<and>
   edit_task example_env accepting_task task_in_3_days empty_world
     = (Return True, task_in_3_days\<lparr>return_code := 200, task_id := ''t-42''\<rparr>,
        empty_world\<lparr>sent := [edit_request_in_3_days]\<rparr>) \<and>
   map_of (req_data edit_request_in_3_days) ''date'' = Some (FStr ''2026-11-07T09:30:00'')"
proof -
  have today: "0 < task_days task_today \<longrightarrow>
      plus_days example_env (now example_env) (task_days task_today) \<noteq> None"
    by (simp add: example_days)
  have later: "0 < task_days task_in_3_days \<longrightarrow>
      plus_days example_env (now example_env) (task_days task_in_3_days) \<noteq> None"
    by (simp add: example_days example_clock)
  note first = due_date_field [where env = example_env and s = task_in_3_days
      and path = "''cipher.bin''" and key = "''token''" and remote = rejecting_task
      and w = empty_world and se = task_today and keye = "''token''"
      and remote_e = accepting_task and we = empty_world]
  note second = due_date_field [where env = example_env and s = task_today
      and path = "''cipher.bin''" and key = "''token''" and remote = accepting_task
      and w = empty_world and se = task_in_3_days and keye = "''token''"
      and remote_e = accepting_task and we = empty_world]
  from first [THEN conjunct1, THEN mp, OF example_token(2), THEN mp, OF later,
      THEN mp, OF create_in_3_days_run]
  have a: "map_of (req_data create_request_in_3_days) ''date''
             = Some (FStr ''2026-11-07T09:30:00'')"
    by (simp add: empty_world_def example_days example_clock)
  from first [THEN conjunct2, THEN mp, OF example_token(1), THEN mp, OF today,
      THEN mp, OF edit_today_run]
  have b: "''date'' \<notin> fst ` set (req_data edit_request_today)"
    by (simp add: empty_world_def example_days)
  from second [THEN conjunct1, THEN mp, OF example_token(1), THEN mp, OF today,
      THEN mp, OF create_today_run]
  have c: "''date'' \<notin> fst ` set (req_data create_request_today)"
    by (simp add: empty_world_def example_days)
  from second [THEN conjunct2, THEN mp, OF example_token(2), THEN mp, OF later,
      THEN mp, OF edit_in_3_days_run]
  have d: "map_of (req_data edit_request_in_3_days) ''date''
             = Some (FStr ''2026-11-07T09:30:00'')"
    by (simp add: empty_world_def example_days example_clock)
  from a b c d example_token [of "Some ''cipher.bin''"] example_token [of None]
    example_days example_clock
    create_in_3_days_run edit_today_run create_today_run edit_in_3_days_run
  show ?thesis by (simp only: simp_thms)
qed

text \<open>
  Claim C8. A call of \<open>create_task\<close> whose token decrypts and whose due date, if there is
  one, can be computed issues one \<^verbatim>\<open>POST\<close> request to the task endpoint and returns
  \<open>True\<close> when the answer has status 201 and \<open>False\<close> for every other status; with status
  201 the \<open>task_id\<close> of the session becomes the \<^verbatim>\<open>id\<close> of the \<^verbatim>\<open>data\<close> object of the
  answer, with any other status it stays what it was. Conversely, whenever the call
  returns \<open>True\<close> it has issued a request that was answered with status 201 and has
  stored that id, and whenever it does not return \<open>True\<close> (it returns \<open>False\<close> or raises)
  the \<open>task_id\<close> is unchanged.
\<close>

theorem create_task_success_iff_201:
  assumes "create_task env remote path s w = (out, s', w')"
  shows "(decrypt_text env (encode_utf8 (api_token s)) (Some path) = Some key \<longrightarrow>
          (0 < task_days s \<longrightarrow> plus_days env (now env) (task_days s) \<noteq> None) \<longrightarrow>
            (\<exists>rq. sent w' = sent w @ [rq] \<and> req_method rq = POST \<and>
               req_url rq = ''https://habitica.com/api/v3/tasks/user'' \<and>
               out = Return (status_code (remote rq) = 201) \<and>
               task_id s' = (if status_code (remote rq) = 201
                             then task_json_id (json_data (remote rq)) else task_id s))) \<and>
         (out = Return True \<longrightarrow>
            (\<exists>rq. sent w' = sent w @ [rq] \<and> status_code (remote rq) = 201 \<and>
               task_id s' = task_json_id (json_data (remote rq)))) \<and>
         (out \<noteq> Return True \<longrightarrow> task_id s' = task_id s)"
proof -
  have a: "\<exists>rq. sent w' = sent w @ [rq] \<and> req_method rq = POST \<and>
               req_url rq = ''https://habitica.com/api/v3/tasks/user'' \<and>
               out = Return (status_code (remote rq) = 201) \<and>
               task_id s' = (if status_code (remote rq) = 201
                             then task_json_id (json_data (remote rq)) else task_id s)"
    if h: "decrypt_text env (encode_utf8 (api_token s)) (Some path) = Some key"
      "0 < task_days s \<longrightarrow> plus_days env (now env) (task_days s) \<noteq> None"
  proof -
    from create_task_sends [OF h assms] obtain rq where rq: "sent w' = sent w @ [rq]" ..
    from create_task_answer [OF assms rq] create_task_request [OF assms rq] rq
    show ?thesis by (intro exI [of _ rq]) simp
  qed
  have b: "\<exists>rq. sent w' = sent w @ [rq] \<and> status_code (remote rq) = 201 \<and>
               task_id s' = task_json_id (json_data (remote rq))"
    if t: "out = Return True"
  proof -
    from create_task_returns [of env remote path s w True s' w'] assms t
    obtain rq where rq: "sent w' = sent w @ [rq]" by blast
    from create_task_answer [OF assms rq] t rq
    show ?thesis by (intro exI [of _ rq]) (simp split: if_splits)
  qed
  have c: "task_id s' = task_id s" if f: "out \<noteq> Return True"
  proof (cases out)
    case (Raise e)
    with create_task_raises [of env remote path s w e s' w'] assms show ?thesis by simp
  next
    case (Return v)
    with f have v: "out = Return False" by simp
    from create_task_returns [of env remote path s w False s' w'] assms v
    obtain rq where rq: "sent w' = sent w @ [rq]" by blast
    from create_task_answer [OF assms rq] v show ?thesis by (simp split: if_splits)
  qed
  from a b c show ?thesis by blast
qed

theorem create_task_success_iff_201_witness:
  "logged_in task_today \<and>
   decrypt_text example_env (encode_utf8 (api_token task_today)) (Some ''cipher.bin'')
     = Some ''token'' \<and>
   task_days task_today = 0 \<and>
   create_task example_env accepting_task ''cipher.bin'' task_today empty_world
     = (Return True, task_today\<lparr>return_code := 201, task_id := ''t-42''\<rparr>,
        empty_world\<lparr>sent := [create_request_today]\<rparr>) \<and>
   status_code (accepting_task create_request_today) = 201 \<and>
   task_json_id (json_data (accepting_task create_request_today)) = ''t-42'' \<and>
   task_id (task_today\<lparr>return_code := 201, task_id := ''t-42''\<rparr>) = ''t-42'' \<and>
   logged_in task_in_3_days \<and>
   create_task example_env rejecting_task ''cipher.bin'' task_in_3_days empty_world
     = (Return False, task_in_3_days\<lparr>return_code := 400\<rparr>,
        empty_world\<lparr>sent := [create_request_in_3_days]\<rparr>) \<and>
   status_code (rejecting_task create_request_in_3_days) = 400 \<and>
   Return False \<noteq> Return True \<and>
   task_id (task_in_3_days\<lparr>return_code := 400\<rparr>) = task_id task_in_3_days"
proof -
  have today: "0 < task_days task_today \<longrightarrow>
      plus_days example_env (now example_env) (task_days task_today) \<noteq> None"
    by (simp add: example_days)
  have answers: "status_code (accepting_task create_request_today) = 201"
    "task_json_id (json_data (accepting_task create_request_today)) = ''t-42''"
    "status_code (rejecting_task create_request_in_3_days) = 400"
    by (simp_all add: accepting_task_def rejecting_task_def create_request_today_def)
  note accepted = create_task_success_iff_201 [OF create_today_run, where key = "''token''"]
  note rejected = create_task_success_iff_201 [OF create_in_3_days_run, where key = "''token''"]
  from accepted [THEN conjunct1, THEN mp, OF example_token(1), THEN mp, OF today]
  have a: "task_id (task_today\<lparr>return_code := 201, task_id := ''t-42''\<rparr>) = ''t-42''"
    by simp
  from accepted [THEN conjunct2, THEN conjunct1, THEN mp, OF refl]
  have b: "status_code (accepting_task create_request_today) = 201"
    by (simp add: empty_world_def)
  have ne: "Return False \<noteq> (Return True :: bool outcome)"
    by simp
  from rejected [THEN conjunct2, THEN conjunct2, THEN mp, OF ne]
  have c: "task_id (task_in_3_days\<lparr>return_code := 400\<rparr>) = task_id task_in_3_days" .
  from a b c ne answers example_token [of "Some ''cipher.bin''"] example_days
    create_today_run create_in_3_days_run
  show ?thesis by (simp only: simp_thms)
qed



text \<open>
  Claim C4, as the code has it. \<open>edit_task\<close> does not look at the task id before it
  builds the request: with an empty \<open>task_id\<close>, a token that decrypts and a due date that
  can be computed, it issues one \<^verbatim>\<open>PUT\<close> request to the URL
  \<^verbatim>\<open>https://habitica.com/api/v3/tasks/\<close> (nothing appended) and returns \<open>True\<close> when the
  answer has status 200, \<open>False\<close> otherwise. The code has no precondition error.
\<close>

theorem edit_task_empty_task_id:
  assumes "task_id s = ''''"
      and "decrypt_text env (encode_utf8 (api_token s)) None = Some key"
      and "0 < task_days s \<longrightarrow> plus_days env (now env) (task_days s) \<noteq> None"
      and "edit_task env remote s w = (out, s', w')"
  shows "\<exists>rq. sent w' = sent w @ [rq] \<and> req_method rq = PUT \<and>
              req_url rq = ''https://habitica.com/api/v3/tasks/'' \<and>
              out = Return (status_code (remote rq) = 200)"
proof -
  from edit_task_issues [OF assms(2,3), of remote w] assms(4)
  obtain rq where rq: "sent w' = sent w @ [rq]" by auto
  from edit_task_request [OF assms(4) rq] edit_task_answer [OF assms(4) rq] assms(1)
  have "req_method rq = PUT \<and> req_url rq = ''https://habitica.com/api/v3/tasks/'' \<and>
        out = Return (status_code (remote rq) = 200)"
    by simp
  with rq show ?thesis by blast
qed

theorem edit_task_empty_task_id_witness:
  "task_id task_today = '''' \<and>
   decrypt_text example_env (encode_utf8 (api_token task_today)) None = Some ''token'' \<and>
   \<not> 0 < task_days task_today \<and>
   edit_task example_env accepting_task task_today empty_world
     = (Return True, task_today\<lparr>return_code := 200, task_id := ''t-42''\<rparr>,
        empty_world\<lparr>sent := [edit_request_today]\<rparr>) \<and>
   req_method edit_request_today = PUT \<and>
   req_url edit_request_today = ''https://habitica.com/api/v3/tasks/'' \<and>
   status_code (accepting_task edit_request_today) = 200"
proof -
  have a: "task_id task_today = ''''"
    by (simp add: task_today_def ann_logged_in_def init_def)
  have b: "decrypt_text example_env (encode_utf8 (api_token task_today)) None = Some ''token''"
    by (simp add: task_today_def ann_logged_in_def init_def example_env_def encode_utf8_def)
  have c: "\<not> 0 < task_days task_today"
    by (simp add: task_today_def ann_logged_in_def init_def)
  then have c': "0 < task_days task_today \<longrightarrow>
      plus_days example_env (now example_env) (task_days task_today) \<noteq> None"
    by simp
  show ?thesis
    using edit_task_empty_task_id [OF a b c' edit_today_run] a b c edit_today_run
    by (simp add: edit_request_today_def accepting_task_def)
qed

text \<open>
  Claim C4 as the spec states it fails: the session \<open>task_today\<close> has an empty \<open>task_id\<close>,
  and \<open>edit_task\<close> sends a request and returns \<open>True\<close>.
\<close>

theorem edit_task_empty_task_id_counterexample:
  "task_id task_today = '''' \<and>
   fst (edit_task example_env accepting_task task_today empty_world) = Return True \<and>
   sent (snd (snd (edit_task example_env accepting_task task_today empty_world)))
     = [edit_request_today] \<and>
   sent empty_world = []"
  by (simp add: edit_today_run) (simp add: task_today_def ann_logged_in_def init_def empty_world_def)

section \<open>get\_user\_tags\<close>

text \<open>The example calls, evaluated.\<close>

lemma unicode_escape_append:
  "unicode_escape (xs @ ys) = unicode_escape xs @ unicode_escape ys"
  by (simp add: unicode_escape_def)

lemma unicode_escape_ascii:
  "\<forall>c \<in> set s. 0x20 \<le> (of_char c :: nat) \<and> (of_char c :: nat) < 0x7F \<and> c \<noteq> CHR 0x5C \<Longrightarrow>
     unicode_escape (code_points s) = s"
proof (induction s)
  case Nil
  show ?case by (simp add: unicode_escape_def code_points_def)
next
  case (Cons c s)
  from Cons.prems have c: "0x20 \<le> (of_char c :: nat)" "(of_char c :: nat) < 0x7F" "c \<noteq> CHR 0x5C"
    by simp_all
  from c(3) have "(of_char c :: nat) \<noteq> of_char (CHR 0x5C)"
    by (simp only: of_char_eq_iff not_False_eq_True)
  then have "(of_char c :: nat) \<noteq> 0x5C" by simp
  with c have "escape_char (of_char c) = [c]"
    unfolding escape_char_def by simp
  moreover from Cons have "unicode_escape (code_points s) = s" by simp
  ultimately show ?case
    by (simp add: unicode_escape_def code_points_def)
qed

lemma escape_home:
  "unicode_escape (code_points ''home'') = ''home''"
  "unicode_escape (code_points ''work'') = ''work''"
  by (simp_all add: unicode_escape_ascii)

lemma escape_cafe:
  "unicode_escape (code_points ''caf'' @ [0xE9]) = ''caf'' @ [CHR 0x5C] @ ''xe9''"
  unfolding unicode_escape_append
  by (simp add: unicode_escape_ascii) (simp add: unicode_escape_def escape_char_def hexdigit_def)

lemma escape_wide:
  "unicode_escape [0x65E5] = [CHR 0x5C] @ ''u65e5''"
  "unicode_escape [0x1F600] = [CHR 0x5C] @ ''U0001f600''"
  by (simp_all add: unicode_escape_def escape_char_def hexdigit_def)

lemma sync_run:
  "get_user_tags example_env remote_home_work ''cipher.bin'' ann_logged_in world_tags
     = (Return (TagData home_work), ann_logged_in,
        world_tags\<lparr>Tags_objects := synced_tags, sent := [tags_request_ann]\<rparr>)"
  by (simp add: get_user_tags_def example_env_def remote_home_work_def ann_logged_in_def init_def
        world_tags_def two_users_def home_work_def synced_tags_def tags_request_ann_def
        task_headers_ann_def Let_def encode_utf8_def Users_get_def Tags_filter_owner_def
        Tags_update_or_create_def Tags_delete_def escape_home)

lemma sync_again:
  "get_user_tags example_env remote_home_work ''cipher.bin'' ann_logged_in
       (world_tags\<lparr>Tags_objects := synced_tags, sent := [tags_request_ann]\<rparr>)
     = (Return (TagData home_work), ann_logged_in,
        world_tags\<lparr>Tags_objects := synced_tags, sent := [tags_request_ann, tags_request_ann]\<rparr>)"
  by (simp add: get_user_tags_def example_env_def remote_home_work_def ann_logged_in_def init_def
        world_tags_def two_users_def home_work_def synced_tags_def tags_request_ann_def
        task_headers_ann_def Let_def encode_utf8_def Users_get_def Tags_filter_owner_def
        Tags_update_or_create_def Tags_delete_def escape_home)

lemma no_tags_run:
  "get_user_tags example_env remote_no_tags ''cipher.bin'' ann_logged_in world_tags
     = (Return PyFalse, ann_logged_in, world_tags\<lparr>sent := [tags_request_ann]\<rparr>)"
  by (simp add: get_user_tags_def example_env_def remote_no_tags_def ann_logged_in_def init_def
        world_tags_def two_users_def tags_request_ann_def
        task_headers_ann_def Let_def encode_utf8_def Users_get_def Tags_filter_owner_def)

lemma unavailable_run:
  "get_user_tags example_env remote_unavailable ''cipher.bin'' ann_logged_in world_tags
     = (Return PyFalse, ann_logged_in\<lparr>return_code := 503\<rparr>, world_tags\<lparr>sent := [tags_request_ann]\<rparr>)"
  by (simp add: get_user_tags_def example_env_def remote_unavailable_def ann_logged_in_def init_def
        world_tags_def two_users_def tags_request_ann_def
        task_headers_ann_def Let_def encode_utf8_def Users_get_def Tags_filter_owner_def)

lemma no_user_run:
  "get_user_tags example_env remote_no_tags ''cipher.bin'' ann_logged_in empty_world
     = (Raise DoesNotExist, ann_logged_in, empty_world\<lparr>sent := [tags_request_ann]\<rparr>)"
  by (simp add: get_user_tags_def example_env_def remote_no_tags_def ann_logged_in_def init_def
        empty_world_def tags_request_ann_def
        task_headers_ann_def Let_def encode_utf8_def Users_get_def Tags_filter_owner_def)

lemma Users_get_Some:
  "Users_get uid tbl = Some user \<Longrightarrow> user_id user = uid \<and> user \<in> set tbl"
  unfolding Users_get_def by (auto simp: find_Some_iff)

lemma get_user_tags_success:
  assumes "get_user_tags env remote path s w = (Return (TagData ts), s', w')"
  obtains key user T1 left rq where
    "decrypt_text env (encode_utf8 (api_token s)) (Some path) = Some key"
    "sent w' = sent w @ [rq]" "status_code (remote rq) = 200"
    "json_data (remote rq) = Some ts" "ts \<noteq> []"
    "Users_get (hab_user_id s) (Users_objects w) = Some user"
    "add_update_tags user ts (Tags_objects w, map tag_id (Tags_filter_owner user (Tags_objects w))) = (T1, left)"
    "Tags_objects w' = delete_leftover left T1" "Users_objects w' = Users_objects w"
    "s' = s\<lparr>return_code := 200\<rparr>"
  using assms unfolding get_user_tags_def
  by (auto simp: Let_def split: option.splits if_splits list.splits prod.splits)

lemma get_user_tags_no_success:
  assumes "get_user_tags env remote path s w = (out, s', w')"
      and "\<forall>ts. out \<noteq> Return (TagData ts)"
  shows "Users_objects w' = Users_objects w \<and> Tags_objects w' = Tags_objects w"
  using assms unfolding get_user_tags_def
  by (auto simp: Let_def split: option.splits if_splits list.splits prod.splits)

lemma get_user_tags_users:
  assumes "get_user_tags env remote path s w = (out, s', w')"
  shows "Users_objects w' = Users_objects w \<and> hab_user_id s' = hab_user_id s \<and>
         api_token s' = api_token s"
  using assms unfolding get_user_tags_def
  by (auto simp: Let_def split: option.splits if_splits list.splits prod.splits)

lemma get_user_tags_failing_answer:
  assumes "get_user_tags env remote path s w = (out, s', w')"
      and "sent w' = sent w @ [rq]"
      and "status_code (remote rq) \<noteq> 200 \<or> json_data (remote rq) = None \<or>
           json_data (remote rq) = Some []"
  shows "out = (if status_code (remote rq) = 200 \<and>
                   Users_get (hab_user_id s) (Users_objects w) = None
                then Raise DoesNotExist else Return PyFalse)"
  using assms unfolding get_user_tags_def
  by (auto simp: Let_def split: option.splits if_splits list.splits prod.splits)

lemma get_user_tags_outcome_depends:
  assumes "hab_user_id s2 = hab_user_id s" "api_token s2 = api_token s"
      and "Users_objects w2 = Users_objects w"
  shows "fst (get_user_tags env remote path s2 w2) = fst (get_user_tags env remote path s w)"
  unfolding get_user_tags_def
  by (simp add: assms Let_def split: option.split list.split prod.split)

lemma add_update_tags_append:
  "add_update_tags u (xs @ ys) st = add_update_tags u ys (add_update_tags u xs st)"
proof (induction xs arbitrary: st)
  case Nil
  show ?case by (cases st) simp
next
  case (Cons x xs)
  show ?case by (cases st) (simp add: Let_def Cons.IH)
qed

lemma escape_char_plain:
  "0x20 \<le> c \<Longrightarrow> c < 0x7F \<Longrightarrow> c \<noteq> 0x5C \<Longrightarrow> escape_char c = [char_of c]"
  unfolding escape_char_def by simp

lemma unicode_escape_plain:
  "\<forall>c \<in> set s. 0x20 \<le> c \<and> c < 0x7F \<and> c \<noteq> 0x5C \<Longrightarrow>
     code_points (unicode_escape s) = s"
  unfolding unicode_escape_def code_points_def
  by (induction s) (simp_all add: escape_char_plain)

text \<open>
  The unique keys are invariants: a table with unique ids has unique ids after every call.
\<close>

lemma get_user_tags_unique:
  assumes "unique_tag_ids (Tags_objects w)"
      and "get_user_tags env remote path s w = (out, s', w')"
  shows "unique_tag_ids (Tags_objects w')"
proof (cases "\<exists>ts. out = Return (TagData ts)")
  case False
  then have "\<forall>ts. out \<noteq> Return (TagData ts)" by simp
  from get_user_tags_no_success [OF assms(2) this] assms(1) show ?thesis by simp
next
  case True
  then obtain ts where ts: "out = Return (TagData ts)" by blast
  from assms(2) obtain key :: string and rq :: http_request and user T1 left where
    run: "add_update_tags user ts
            (Tags_objects w, map tag_id (Tags_filter_owner user (Tags_objects w))) = (T1, left)" and
    T': "Tags_objects w' = delete_leftover left T1"
    unfolding ts by (rule get_user_tags_success)
  from reconcile_unique [OF assms(1) run] T' show ?thesis by simp
qed

lemma login_unique:
  assumes "unique_user_ids (Users_objects w)"
      and "login env remote password s w = (out, s', w')"
  shows "unique_user_ids (Users_objects w')"
  using assms Users_update_or_create_unique [OF assms(1)] unfolding login_def
  by (auto simp: Let_def split: if_splits option.splits)

lemma login_api_key_unique:
  assumes "unique_user_ids (Users_objects w)"
      and "login_api_key env remote s w = (out, s', w')"
  shows "unique_user_ids (Users_objects w')"
  using assms Users_update_or_create_unique [OF assms(1)] unfolding login_api_key_def
  by (auto simp: Let_def split: if_splits option.splits)

text \<open>
  After a call of \<open>get_user_tags\<close> that returns the fetched list, the tag table holds, for
  the last tag of the list with a given id, the row with the escaped name.
\<close>

lemma get_user_tags_stores_escaped_name:
  assumes "unique_tag_ids (Tags_objects w)"
      and "get_user_tags env remote path s w = (Return (TagData remote_tags), s', w')"
      and "remote_tags = before @ t # after"
      and "tag_json_id t \<notin> tag_json_id ` set after"
  shows "\<lparr>tag_id = tag_json_id t, tag_owner = hab_user_id s,
           tag_text = unicode_escape (tag_json_name t)\<rparr> \<in> set (Tags_objects w')"
proof -
  let ?row = "\<lparr>tag_id = tag_json_id t, tag_owner = hab_user_id s,
                tag_text = unicode_escape (tag_json_name t)\<rparr>"
  from assms(2) obtain key :: string and rq :: http_request and user T1 left where
    user: "Users_get (hab_user_id s) (Users_objects w) = Some user" and
    run: "add_update_tags user remote_tags
            (Tags_objects w, map tag_id (Tags_filter_owner user (Tags_objects w))) = (T1, left)" and
    T': "Tags_objects w' = delete_leftover left T1"
    by (rule get_user_tags_success)
  from Users_get_Some [OF user] have uid: "user_id user = hab_user_id s" by simp
  obtain tbl1 cur1 where st1:
    "add_update_tags user before
       (Tags_objects w, map tag_id (Tags_filter_owner user (Tags_objects w))) = (tbl1, cur1)"
    by (cases "add_update_tags user before
       (Tags_objects w, map tag_id (Tags_filter_owner user (Tags_objects w)))")
  let ?tbl2 = "Tags_update_or_create (tag_json_id t) user (unicode_escape (tag_json_name t)) tbl1"
  let ?cur2 = "if tag_json_id t \<in> set cur1 then remove1 (tag_json_id t) cur1 else cur1"
  have "add_update_tags user remote_tags
          (Tags_objects w, map tag_id (Tags_filter_owner user (Tags_objects w)))
        = add_update_tags user after (?tbl2, ?cur2)"
    unfolding assms(3) by (simp add: add_update_tags_append st1 Let_def encode_utf8_def)
  with run have T1: "T1 = fst (add_update_tags user after (?tbl2, ?cur2))" by simp
  have in2: "?row \<in> set ?tbl2"
    using Tags_update_or_create_present [of "tag_json_id t" user "unicode_escape (tag_json_name t)" tbl1]
    unfolding uid .
  from assms(4) have other: "tag_id ?row \<notin> tag_json_id ` set after" by simp
  from in2 have in1: "?row \<in> set T1"
    unfolding T1 add_update_tags_other [OF other] .
  have d: "distinct (map tag_id (Tags_filter_owner user (Tags_objects w)))"
    using assms(1) unfolding unique_tag_ids_def Tags_filter_owner_def by (rule distinct_map_filter)
  from add_update_tags_leftover [OF d, of user remote_tags "Tags_objects w"] run
  have "left = filter (\<lambda>i. i \<notin> tag_json_id ` set remote_tags)
                 (map tag_id (Tags_filter_owner user (Tags_objects w)))"
    by simp
  then have "tag_json_id t \<notin> set left"
    unfolding assms(3) by simp
  with in1 show ?thesis
    unfolding T' delete_leftover_filter by simp
qed

lemma Tags_update_or_create_keyed:
  assumes "r \<in> set (Tags_update_or_create tid u txt tbl)" and "tag_id r = tid"
  shows "r = \<lparr>tag_id = tid, tag_owner = user_id u, tag_text = txt\<rparr>"
proof -
  from Tags_update_or_create_row [OF assms]
  have "tag_owner r = user_id u" "tag_text r = txt" by simp_all
  with assms(2) show ?thesis by (cases r) simp
qed

lemma Tags_update_or_create_others:
  "filter (\<lambda>r. tag_id r \<noteq> tid) (Tags_update_or_create tid u txt tbl)
     = filter (\<lambda>r. tag_id r \<noteq> tid) tbl"
proof (cases "tid \<in> set (map tag_id tbl)")
  case True
  have "filter (\<lambda>r. tag_id r \<noteq> tid)
          (map (\<lambda>r. if tag_id r = tid then r\<lparr>tag_owner := user_id u, tag_text := txt\<rparr> else r) tbl)
        = filter (\<lambda>r. tag_id r \<noteq> tid) tbl"
    by (induction tbl) simp_all
  with True show ?thesis
    unfolding Tags_update_or_create_def by (simp only: if_True)
next
  case False
  then show ?thesis by (simp add: Tags_update_or_create_def)
qed

lemma Tags_update_or_create_length:
  "length (Tags_update_or_create tid u txt tbl)
     = (if tid \<in> tag_id ` set tbl then length tbl else Suc (length tbl))"
  by (simp add: Tags_update_or_create_def)

lemma add_update_tags_step:
  assumes "add_update_tags user before (tbl, cur) = (T0, cur0)"
  shows "add_update_tags user (before @ [t]) (tbl, cur)
           = (Tags_update_or_create (tag_json_id t) user (unicode_escape (tag_json_name t)) T0,
              if tag_json_id t \<in> set cur0 then remove1 (tag_json_id t) cur0 else cur0)"
  by (simp add: add_update_tags_append assms Let_def encode_utf8_def)

text \<open>
  Claim C1. Let the tag table have unique tag ids. After a call of \<open>get_user_tags\<close> that
  returns the fetched tag list, the ids of the tag rows owned by the user of the session
  are exactly the ids of the tags in that list, which is the \<^verbatim>\<open>data\<close> of the answer to the
  request of this call: every remote id has a row of the user, and no row of the user has
  an id outside the list.
\<close>

theorem get_user_tags_snapshot:
  assumes "unique_tag_ids (Tags_objects w)"
      and "get_user_tags env remote path s w = (Return (TagData remote_tags), s', w')"
  shows "tag_id ` {r \<in> set (Tags_objects w'). tag_owner r = hab_user_id s}
           = tag_json_id ` set remote_tags \<and>
         (\<exists>rq. sent w' = sent w @ [rq] \<and> json_data (remote rq) = Some remote_tags)"
proof -
  from assms(2) obtain key :: string and user T1 left rq where
    rq: "sent w' = sent w @ [rq]" "json_data (remote rq) = Some remote_tags" and
    user: "Users_get (hab_user_id s) (Users_objects w) = Some user" and
    run: "add_update_tags user remote_tags
            (Tags_objects w, map tag_id (Tags_filter_owner user (Tags_objects w))) = (T1, left)" and
    T': "Tags_objects w' = delete_leftover left T1"
    by (rule get_user_tags_success)
  from Users_get_Some [OF user] have uid: "user_id user = hab_user_id s" by simp
  from reconcile_owned [OF assms(1) run]
  have "tag_id ` {r \<in> set (Tags_objects w'). tag_owner r = hab_user_id s}
           = tag_json_id ` set remote_tags"
    unfolding T' uid .
  with rq show ?thesis by blast
qed


theorem get_user_tags_snapshot_witness:
  "unique_tag_ids (Tags_objects world_tags) \<and>
   get_user_tags example_env remote_home_work ''cipher.bin'' ann_logged_in world_tags
     = (Return (TagData home_work), ann_logged_in,
        world_tags\<lparr>Tags_objects := synced_tags, sent := [tags_request_ann]\<rparr>) \<and>
   tag_id ` {r \<in> set (Tags_objects world_tags). tag_owner r = hab_user_id ann_logged_in}
     = {''2'', ''3''} \<and>
   tag_id ` {r \<in> set synced_tags. tag_owner r = hab_user_id ann_logged_in} = {''1'', ''2''} \<and>
   tag_json_id ` set home_work = {''1'', ''2''}"
proof -
  have a: "unique_tag_ids (Tags_objects world_tags)"
    by (simp add: unique_tag_ids_def world_tags_def)
  have b: "tag_id ` {r \<in> set (Tags_objects world_tags). tag_owner r = hab_user_id ann_logged_in}
     = {''2'', ''3''}"
  proof -
    have "{r \<in> set (Tags_objects world_tags). tag_owner r = hab_user_id ann_logged_in}
          = set (filter (\<lambda>r. tag_owner r = hab_user_id ann_logged_in) (Tags_objects world_tags))"
      by simp
    also have "filter (\<lambda>r. tag_owner r = hab_user_id ann_logged_in) (Tags_objects world_tags)
          = [\<lparr>tag_id = ''2'', tag_owner = ''u1'', tag_text = ''office''\<rparr>,
             \<lparr>tag_id = ''3'', tag_owner = ''u1'', tag_text = ''garden''\<rparr>]"
      by (simp add: world_tags_def ann_logged_in_def init_def)
    finally show ?thesis by simp
  qed
  have c: "tag_json_id ` set home_work = {''1'', ''2''}"
    by (simp add: home_work_def)
  show ?thesis
    using get_user_tags_snapshot [OF a sync_run] a b c sync_run
    by simp
qed

text \<open>
  Claim C5. Let the tag table have unique tag ids. Two calls of \<open>get_user_tags\<close> in a row
  against the same remote system leave, after the second call, the tag table that the
  first call has left, and the second call returns what the first one returned.
\<close>

theorem get_user_tags_idempotent:
  assumes "unique_tag_ids (Tags_objects w)"
      and "get_user_tags env remote path s w = (out1, s1, w1)"
      and "get_user_tags env remote path s1 w1 = (out2, s2, w2)"
  shows "Tags_objects w2 = Tags_objects w1 \<and> out2 = out1"
proof -
  note same = get_user_tags_users [OF assms(2)]
  have out: "out2 = out1"
    using get_user_tags_outcome_depends [of s1 s w1 w env remote path] same assms(2,3)
    by simp
  show ?thesis
  proof (cases "\<exists>ts. out1 = Return (TagData ts)")
    case False
    with out have "\<forall>ts. out2 \<noteq> Return (TagData ts)" by simp
    from get_user_tags_no_success [OF assms(3) this] out show ?thesis by simp
  next
    case True
    then obtain ts where ts: "out1 = Return (TagData ts)" by blast
    from assms(2) obtain key :: string and rq :: http_request and user T1 left where
      user: "Users_get (hab_user_id s) (Users_objects w) = Some user" and
      run1: "add_update_tags user ts
               (Tags_objects w, map tag_id (Tags_filter_owner user (Tags_objects w))) = (T1, left)" and
      T2: "Tags_objects w1 = delete_leftover left T1"
      unfolding ts by (rule get_user_tags_success)
    from assms(3) obtain key' :: string and rq' :: http_request and user' T3 left' where
      user': "Users_get (hab_user_id s1) (Users_objects w1) = Some user'" and
      run2: "add_update_tags user' ts
               (Tags_objects w1, map tag_id (Tags_filter_owner user' (Tags_objects w1))) = (T3, left')" and
      T4: "Tags_objects w2 = delete_leftover left' T3"
      unfolding out ts by (rule get_user_tags_success)
    from user user' same have "user' = user" by simp
    with run2 have run2': "add_update_tags user ts
        (Tags_objects w1, map tag_id (Tags_filter_owner user (Tags_objects w1))) = (T3, left')"
      by simp
    from reconcile_fixpoint [OF assms(1) run1 T2 run2'] T4 out show ?thesis by simp
  qed
qed

theorem get_user_tags_idempotent_witness:
  "unique_tag_ids (Tags_objects world_tags) \<and>
   get_user_tags example_env remote_home_work ''cipher.bin'' ann_logged_in world_tags
     = (Return (TagData home_work), ann_logged_in,
        world_tags\<lparr>Tags_objects := synced_tags, sent := [tags_request_ann]\<rparr>) \<and>
   get_user_tags example_env remote_home_work ''cipher.bin'' ann_logged_in
       (world_tags\<lparr>Tags_objects := synced_tags, sent := [tags_request_ann]\<rparr>)
     = (Return (TagData home_work), ann_logged_in,
        world_tags\<lparr>Tags_objects := synced_tags, sent := [tags_request_ann, tags_request_ann]\<rparr>) \<and>
   Tags_objects (world_tags\<lparr>Tags_objects := synced_tags,
                            sent := [tags_request_ann, tags_request_ann]\<rparr>)
     = Tags_objects (world_tags\<lparr>Tags_objects := synced_tags, sent := [tags_request_ann]\<rparr>)"
proof -
  have a: "unique_tag_ids (Tags_objects world_tags)"
    by (simp add: unique_tag_ids_def world_tags_def)
  show ?thesis
    using get_user_tags_idempotent [OF a sync_run sync_again] a sync_run sync_again
    by simp
qed

text \<open>
  Claim C3, as the code has it. When \<open>get_user_tags\<close> has issued its request and the
  answer has a status other than 200, or has status 200 and a \<^verbatim>\<open>data\<close> member that is
  \<^verbatim>\<open>null\<close> or the empty list, the user table and the tag table are left as they were: no
  tag is written and none is deleted, so an empty remote tag list never wipes the local
  tags. The call returns \<open>False\<close>, with one exception: when the status is 200 and the user
  table has no row for the user id of the session, \<^verbatim>\<open>Users.objects.get\<close> raises
  \<^verbatim>\<open>DoesNotExist\<close> before the \<^verbatim>\<open>data\<close> member is looked at.
\<close>

theorem get_user_tags_failure:
  assumes "get_user_tags env remote path s w = (out, s', w')"
      and "sent w' = sent w @ [rq]"
      and "status_code (remote rq) \<noteq> 200 \<or> json_data (remote rq) = None \<or>
           json_data (remote rq) = Some []"
  shows "out = (if status_code (remote rq) = 200 \<and>
                   Users_get (hab_user_id s) (Users_objects w) = None
                then Raise DoesNotExist else Return PyFalse) \<and>
         Users_objects w' = Users_objects w \<and> Tags_objects w' = Tags_objects w"
proof -
  have out: "out = (if status_code (remote rq) = 200 \<and>
                   Users_get (hab_user_id s) (Users_objects w) = None
                then Raise DoesNotExist else Return PyFalse)"
    by (rule get_user_tags_failing_answer [OF assms])
  then have "\<forall>ts. out \<noteq> Return (TagData ts)"
    by (simp split: if_splits)
  from get_user_tags_no_success [OF assms(1) this] out show ?thesis by simp
qed

theorem get_user_tags_failure_witness:
  "get_user_tags example_env remote_unavailable ''cipher.bin'' ann_logged_in world_tags
     = (Return PyFalse, ann_logged_in\<lparr>return_code := 503\<rparr>,
        world_tags\<lparr>sent := [tags_request_ann]\<rparr>) \<and>
   status_code (remote_unavailable tags_request_ann) \<noteq> 200 \<and>
   get_user_tags example_env remote_no_tags ''cipher.bin'' ann_logged_in world_tags
     = (Return PyFalse, ann_logged_in, world_tags\<lparr>sent := [tags_request_ann]\<rparr>) \<and>
   status_code (remote_no_tags tags_request_ann) = 200 \<and>
   json_data (remote_no_tags tags_request_ann) = Some [] \<and>
   Users_get (hab_user_id ann_logged_in) (Users_objects world_tags) = Some ann_row \<and>
   Tags_objects (world_tags\<lparr>sent := [tags_request_ann]\<rparr>) = Tags_objects world_tags \<and>
   length (Tags_objects world_tags) = 3"
proof -
  have s: "sent (world_tags\<lparr>sent := [tags_request_ann]\<rparr>) = sent world_tags @ [tags_request_ann]"
    by (simp add: world_tags_def)
  have a: "status_code (remote_unavailable tags_request_ann) \<noteq> 200"
    by (simp add: remote_unavailable_def)
  have b: "json_data (remote_no_tags tags_request_ann) = Some []"
    "status_code (remote_no_tags tags_request_ann) = 200"
    by (simp_all add: remote_no_tags_def)
  have u: "Users_get (hab_user_id ann_logged_in) (Users_objects world_tags) = Some ann_row"
    by (simp add: Users_get_def ann_logged_in_def init_def world_tags_def two_users_def ann_row_def)
  have a': "status_code (remote_unavailable tags_request_ann) \<noteq> 200 \<or>
            json_data (remote_unavailable tags_request_ann) = None \<or>
            json_data (remote_unavailable tags_request_ann) = Some []"
    using a by simp
  have b': "status_code (remote_no_tags tags_request_ann) \<noteq> 200 \<or>
            json_data (remote_no_tags tags_request_ann) = None \<or>
            json_data (remote_no_tags tags_request_ann) = Some []"
    using b by simp
  show ?thesis
    using get_user_tags_failure [OF unavailable_run s a']
      get_user_tags_failure [OF no_tags_run s b'] unavailable_run no_tags_run a b u
    by (simp add: world_tags_def)
qed

text \<open>
  Claim C3 as the spec states it fails: the remote system answers 200 with an empty tag
  list, the user table has no row for the user of the session, and the call raises
  \<^verbatim>\<open>DoesNotExist\<close> instead of returning \<open>False\<close>.
\<close>

theorem get_user_tags_failure_counterexample:
  "get_user_tags example_env remote_no_tags ''cipher.bin'' ann_logged_in empty_world
     = (Raise DoesNotExist, ann_logged_in, empty_world\<lparr>sent := [tags_request_ann]\<rparr>) \<and>
   status_code (remote_no_tags tags_request_ann) = 200 \<and>
   json_data (remote_no_tags tags_request_ann) = Some [] \<and>
   Raise DoesNotExist \<noteq> Return PyFalse"
  by (simp add: no_user_run) (simp add: remote_no_tags_def)

text \<open>
  Claim C9, as the code has it. In the first loop of \<open>get_user_tags\<close>, the iteration for a
  tag \<open>t\<close> of the fetched list upserts by key: it takes the tag table \<open>T0\<close> to a table \<open>T1\<close>
  in which the row with the id of \<open>t\<close>, the current user as owner and, as text, the
  \<^verbatim>\<open>unicode_escape\<close> encoding of the name of \<open>t\<close> is present, every row with that id is this
  row, the rows with other ids are those of \<open>T0\<close> in their order, and the number of rows
  grows by one exactly when \<open>T0\<close> had no row with the id. The rest of the loop runs from
  that state, and at the end of the loop (\<open>T2\<close>) the same holds of the id when no later tag
  of the list has it. When the tag table has unique tag ids at the start, it has them
  after the iteration and at the end, and the row is the only one with its id. The text
  read as code points is the name itself when the name has only printable ASCII
  characters other than the backslash.
\<close>

theorem add_update_tags_upserts:
  assumes "remote_tags = before @ t # after"
      and "add_update_tags user before (tbl, cur) = (T0, cur0)"
      and "add_update_tags user (before @ [t]) (tbl, cur) = (T1, cur1)"
      and "add_update_tags user remote_tags (tbl, cur) = (T2, cur2)"
  shows "(let row = \<lparr>tag_id = tag_json_id t, tag_owner = user_id user,
                      tag_text = unicode_escape (tag_json_name t)\<rparr>
          in row \<in> set T1 \<and>
             (\<forall>r \<in> set T1. tag_id r = tag_json_id t \<longrightarrow> r = row) \<and>
             filter (\<lambda>r. tag_id r \<noteq> tag_json_id t) T1
               = filter (\<lambda>r. tag_id r \<noteq> tag_json_id t) T0 \<and>
             length T1 = (if tag_json_id t \<in> tag_id ` set T0 then length T0 else Suc (length T0)) \<and>
             add_update_tags user after (T1, cur1) = (T2, cur2) \<and>
             (tag_json_id t \<notin> tag_json_id ` set after \<longrightarrow>
                row \<in> set T2 \<and> (\<forall>r \<in> set T2. tag_id r = tag_json_id t \<longrightarrow> r = row)) \<and>
             (unique_tag_ids tbl \<longrightarrow>
                unique_tag_ids T1 \<and> unique_tag_ids T2 \<and>
                filter (\<lambda>r. tag_id r = tag_json_id t) T1 = [row] \<and>
                (tag_json_id t \<notin> tag_json_id ` set after \<longrightarrow>
                   filter (\<lambda>r. tag_id r = tag_json_id t) T2 = [row])) \<and>
             ((\<forall>c \<in> set (tag_json_name t). 0x20 \<le> c \<and> c < 0x7F \<and> c \<noteq> 0x5C) \<longrightarrow>
                code_points (unicode_escape (tag_json_name t)) = tag_json_name t))"
proof -
  define row where "row = \<lparr>tag_id = tag_json_id t, tag_owner = user_id user,
                             tag_text = unicode_escape (tag_json_name t)\<rparr>"
  have id_row: "tag_id row = tag_json_id t" by (simp add: row_def)
  have T1: "T1 = Tags_update_or_create (tag_json_id t) user (unicode_escape (tag_json_name t)) T0"
    using add_update_tags_step [OF assms(2), of t] assms(3) by simp
  have a: "row \<in> set T1"
    unfolding T1 row_def by (rule Tags_update_or_create_present)
  have b: "\<forall>r \<in> set T1. tag_id r = tag_json_id t \<longrightarrow> r = row"
    unfolding T1 row_def by (blast intro: Tags_update_or_create_keyed)
  have c: "filter (\<lambda>r. tag_id r \<noteq> tag_json_id t) T1 = filter (\<lambda>r. tag_id r \<noteq> tag_json_id t) T0"
    unfolding T1 by (rule Tags_update_or_create_others)
  have d: "length T1 = (if tag_json_id t \<in> tag_id ` set T0 then length T0 else Suc (length T0))"
    unfolding T1 by (rule Tags_update_or_create_length)
  have e: "add_update_tags user after (T1, cur1) = (T2, cur2)"
    using add_update_tags_append [of user "before @ [t]" after "(tbl, cur)"] assms(1,3,4) by simp
  then have T2: "T2 = fst (add_update_tags user after (T1, cur1))" by simp
  have same: "r \<in> set T2 \<longleftrightarrow> r \<in> set T1"
    if "tag_json_id t \<notin> tag_json_id ` set after" "tag_id r = tag_json_id t" for r
  proof -
    from that have "tag_id r \<notin> tag_json_id ` set after" by simp
    then show ?thesis unfolding T2 by (rule add_update_tags_other)
  qed
  have f: "row \<in> set T2 \<and> (\<forall>r \<in> set T2. tag_id r = tag_json_id t \<longrightarrow> r = row)"
    if "tag_json_id t \<notin> tag_json_id ` set after"
    using same [OF that] a b id_row by blast
  have g: "unique_tag_ids T1 \<and> unique_tag_ids T2 \<and>
           filter (\<lambda>r. tag_id r = tag_json_id t) T1 = [row] \<and>
           (tag_json_id t \<notin> tag_json_id ` set after \<longrightarrow>
              filter (\<lambda>r. tag_id r = tag_json_id t) T2 = [row])"
    if u: "unique_tag_ids tbl"
  proof -
    have u1: "unique_tag_ids T1"
      using add_update_tags_unique [OF u, of user "before @ [t]" cur] assms(3) by simp
    have u2: "unique_tag_ids T2"
      using add_update_tags_unique [OF u, of user remote_tags cur] assms(4) by simp
    have one: "filter (\<lambda>r. tag_id r = tag_json_id t) T = [row]"
      if "unique_tag_ids T" "row \<in> set T" for T
      using filter_key_distinct [of tag_id T row] that id_row
      unfolding unique_tag_ids_def by simp
    from one [OF u1 a] one [OF u2] f u1 u2 show ?thesis by blast
  qed
  have h: "code_points (unicode_escape (tag_json_name t)) = tag_json_name t"
    if "\<forall>c \<in> set (tag_json_name t). 0x20 \<le> c \<and> c < 0x7F \<and> c \<noteq> 0x5C"
    using that by (rule unicode_escape_plain)
  from a b c d e f g h show ?thesis
    unfolding Let_def row_def [symmetric] by blast
qed

theorem add_update_tags_upserts_witness:
  "home_work = [\<lparr>tag_json_id = ''1'', tag_json_name = code_points ''home''\<rparr>]
                 @ \<lparr>tag_json_id = ''2'', tag_json_name = code_points ''work''\<rparr> # [] \<and>
   add_update_tags ann_row [\<lparr>tag_json_id = ''1'', tag_json_name = code_points ''home''\<rparr>]
       (Tags_objects world_tags, [''2'', ''3'']) = (tags_home_inserted, [''2'', ''3'']) \<and>
   add_update_tags ann_row home_work (Tags_objects world_tags, [''2'', ''3''])
     = (tags_work_updated, [''3'']) \<and>
   unique_tag_ids (Tags_objects world_tags) \<and>
   filter (\<lambda>r. tag_id r = ''2'') tags_home_inserted
     = [\<lparr>tag_id = ''2'', tag_owner = ''u1'', tag_text = ''office''\<rparr>] \<and>
   filter (\<lambda>r. tag_id r = ''2'') tags_work_updated
     = [\<lparr>tag_id = ''2'', tag_owner = ''u1'', tag_text = ''work''\<rparr>] \<and>
   length tags_work_updated = length tags_home_inserted \<and>
   code_points (unicode_escape (code_points ''work'')) = code_points ''work''"
proof -
  let ?home = "\<lparr>tag_json_id = ''1'', tag_json_name = code_points ''home''\<rparr>"
  let ?work = "\<lparr>tag_json_id = ''2'', tag_json_name = code_points ''work''\<rparr>"
  have a: "home_work = [?home] @ ?work # []"
    by (simp add: home_work_def)
  have r0: "add_update_tags ann_row [?home] (Tags_objects world_tags, [''2'', ''3''])
              = (tags_home_inserted, [''2'', ''3''])"
    by (simp add: world_tags_def tags_home_inserted_def ann_row_def Let_def encode_utf8_def
          Tags_update_or_create_def escape_home)
  have r2: "add_update_tags ann_row home_work (Tags_objects world_tags, [''2'', ''3''])
              = (tags_work_updated, [''3''])"
    by (simp add: home_work_def world_tags_def tags_work_updated_def ann_row_def Let_def
          encode_utf8_def Tags_update_or_create_def escape_home)
  have r1: "add_update_tags ann_row ([?home] @ [?work]) (Tags_objects world_tags, [''2'', ''3''])
              = (tags_work_updated, [''3''])"
    using r2 by (simp add: home_work_def)
  have u: "unique_tag_ids (Tags_objects world_tags)"
    by (simp add: unique_tag_ids_def world_tags_def)
  have old: "filter (\<lambda>r. tag_id r = ''2'') tags_home_inserted
               = [\<lparr>tag_id = ''2'', tag_owner = ''u1'', tag_text = ''office''\<rparr>]"
    by (simp add: tags_home_inserted_def)
  note upsert = add_update_tags_upserts [OF a r0 r1 r2, unfolded Let_def]
  have row: "\<lparr>tag_id = tag_json_id ?work, tag_owner = user_id ann_row,
               tag_text = unicode_escape (tag_json_name ?work)\<rparr>
             = \<lparr>tag_id = ''2'', tag_owner = ''u1'', tag_text = ''work''\<rparr>"
    by (simp add: ann_row_def escape_home)
  from upsert [THEN conjunct2, THEN conjunct2, THEN conjunct2, THEN conjunct1]
  have len: "length tags_work_updated = length tags_home_inserted"
    by (simp add: tags_home_inserted_def)
  from upsert [THEN conjunct2, THEN conjunct2, THEN conjunct2, THEN conjunct2,
      THEN conjunct2, THEN conjunct2, THEN conjunct1, rule_format, OF u]
  have new: "filter (\<lambda>r. tag_id r = ''2'') tags_work_updated
               = [\<lparr>tag_id = ''2'', tag_owner = ''u1'', tag_text = ''work''\<rparr>]"
    unfolding row by simp
  from upsert [THEN conjunct2, THEN conjunct2, THEN conjunct2, THEN conjunct2,
      THEN conjunct2, THEN conjunct2, THEN conjunct2]
  have plain: "code_points (unicode_escape (code_points ''work'')) = code_points ''work''"
    by (simp add: code_points_def)
  from a r0 r2 u old new len plain show ?thesis
    by (simp only: simp_thms)
qed

text \<open>
  Claim C9 as the spec states it fails: for the remote tag named \<^verbatim>\<open>caf\<close> followed by
  U+00E9, the stored text is \<^verbatim>\<open>caf\xe9\<close> (eight characters), not the name.
\<close>

theorem add_update_tags_upserts_counterexample:
  "fst (add_update_tags ann_row [cafe] ([], []))
     = [\<lparr>tag_id = ''7'', tag_owner = ''u1'', tag_text = ''caf'' @ [CHR 0x5C] @ ''xe9''\<rparr>] \<and>
   tag_json_name cafe = code_points ''caf'' @ [0xE9] \<and>
   code_points (''caf'' @ [CHR 0x5C] @ ''xe9'') \<noteq> tag_json_name cafe"
  by (simp add: cafe_def ann_row_def Let_def encode_utf8_def Tags_update_or_create_def escape_cafe)
     (simp add: code_points_def)

end
